theory Spec2Isabelle
  imports Complex_Main "HOL-Library.Word"
begin

unbundle bit_operations_syntax

section \<open>Number model\<close>

text \<open>
  The sources are TypeScript: every coordinate, width, scale and height is a JavaScript
  number. The development reads them as real numbers, so \<open>514 / 1620\<close> is the exact
  quotient and a comparison such as \<open>scaledHeight > threshold\<close> is the order of the reals.
  Packed colours go through \<open>>>>\<close> and \<open>&\<close>, which work on the unsigned 32-bit
  reading of the number: they are \<open>32 word\<close>. Byte buffers are lists of \<open>8 word\<close>.
\<close>

section \<open>The decoded page (shapes used by \<open>pdf-renderer\<close> and \<open>document-converter\<close>)\<close>

text \<open>
  \<open>PenType\<close> is an enum of \<open>rm-parser\<close>; the renderer compares the numeric tag of a
  stroke with its members. The members below are the ones the renderer and its tables
  name; the numeric values are never used by the renderer. A tag that is none of them is
  \<open>OtherPen n\<close>.
\<close>

datatype PenType =
    BALLPOINT_1 | BALLPOINT_2
  | MARKER_1 | MARKER_2
  | FINELINER_1 | FINELINER_2
  | PENCIL_1 | PENCIL_2
  | MECHANICAL_PENCIL_1 | MECHANICAL_PENCIL_2
  | BRUSH
  | HIGHLIGHTER_1 | HIGHLIGHTER_2
  | PAINTBRUSH_2
  | CALLIGRAPHY
  | SHADER
  | ERASER | ERASER_AREA
  | OtherPen int

record Point =
  pt_x :: real
  pt_y :: real
  pt_width :: real

record Stroke =
  penType :: PenType
  color :: int
  colorArgb :: "32 word option"
  points :: "Point list"

record Layer =
  strokes :: "Stroke list"

text \<open>
  A text block as the renderer reads it: \<open>posX\<close>, \<open>posY\<close>, \<open>width\<close> (here
  \<open>tb_width\<close>), \<open>text\<close> (here \<open>tb_text\<close>) and the map \<open>paragraphStyles\<close> from
  character offset to style code; the text is its list of UTF-16 code units. The fields of a point are \<open>x\<close>, \<open>y\<close> and \<open>width\<close>
  (here \<open>pt_x\<close>, \<open>pt_y\<close>, \<open>pt_width\<close>).
\<close>

record TextBlock =
  posX :: real
  posY :: real
  tb_width :: real
  tb_text :: "nat list"
  paragraphStyles :: "nat \<rightharpoonup> nat"

text \<open>The element type of \<open>Page.textSpans\<close>; neither the converter nor the renderer reads it.\<close>

typedecl TextSpan

record Page =
  pageId :: string
  layers :: "Layer list"
  textSpans :: "TextSpan list"
  textBlocks :: "TextBlock list"
  width :: real
  height :: real

section \<open>\<open>pdf-renderer\<close>: constants and tables\<close>

definition RM_DEFAULT_WIDTH_PX :: real where
  "RM_DEFAULT_WIDTH_PX = 1404"

definition RM_DEFAULT_HEIGHT_PX :: real where
  "RM_DEFAULT_HEIGHT_PX = 1872"

definition RM_SCREEN_WIDTH_PX :: real where
  "RM_SCREEN_WIDTH_PX = 1620"

definition RM_SCREEN_HEIGHT_PX :: real where
  "RM_SCREEN_HEIGHT_PX = 2160"

definition SCALE :: real where
  "SCALE = 514 / RM_DEFAULT_WIDTH_PX"

definition COORD_SCALE :: real where
  "COORD_SCALE = 514 / RM_SCREEN_WIDTH_PX"

type_synonym RGB = "real \<times> real \<times> real"

definition COLOR_MAP :: "int \<rightharpoonup> RGB" where
  "COLOR_MAP = map_of
     [(0, (0, 0, 0)),
      (1, (0.5647, 0.5647, 0.5647)),
      (2, (1, 1, 1)),
      (3, (0.9804, 0.9059, 0.0980)),
      (4, (0.5686, 0.8549, 0.4431)),
      (5, (0.7529, 0.4980, 0.8235)),
      (6, (0.1882, 0.2902, 0.8784)),
      (7, (0.7608, 0.1922, 0.1961)),
      (8, (0.5647, 0.5647, 0.5647)),
      (9, (0.9804, 0.9059, 0.0980)),
      (10, (0.5686, 0.8549, 0.4431)),
      (11, (0.4549, 0.8235, 0.9098)),
      (12, (0.7529, 0.4980, 0.8235)),
      (13, (0.9804, 0.9059, 0.0980))]"

record PenStyle =
  opacity :: real
  isHighlighter :: bool

fun PEN_STYLES :: "PenType \<Rightarrow> PenStyle option" where
  "PEN_STYLES BALLPOINT_1 = Some \<lparr>opacity = 1.0, isHighlighter = False\<rparr>"
| "PEN_STYLES BALLPOINT_2 = Some \<lparr>opacity = 1.0, isHighlighter = False\<rparr>"
| "PEN_STYLES MARKER_1 = Some \<lparr>opacity = 1.0, isHighlighter = False\<rparr>"
| "PEN_STYLES MARKER_2 = Some \<lparr>opacity = 1.0, isHighlighter = False\<rparr>"
| "PEN_STYLES FINELINER_1 = Some \<lparr>opacity = 1.0, isHighlighter = False\<rparr>"
| "PEN_STYLES FINELINER_2 = Some \<lparr>opacity = 1.0, isHighlighter = False\<rparr>"
| "PEN_STYLES PENCIL_1 = Some \<lparr>opacity = 0.35, isHighlighter = False\<rparr>"
| "PEN_STYLES PENCIL_2 = Some \<lparr>opacity = 0.35, isHighlighter = False\<rparr>"
| "PEN_STYLES MECHANICAL_PENCIL_1 = Some \<lparr>opacity = 0.7, isHighlighter = False\<rparr>"
| "PEN_STYLES MECHANICAL_PENCIL_2 = Some \<lparr>opacity = 0.7, isHighlighter = False\<rparr>"
| "PEN_STYLES BRUSH = Some \<lparr>opacity = 1.0, isHighlighter = False\<rparr>"
| "PEN_STYLES HIGHLIGHTER_1 = Some \<lparr>opacity = 0.45, isHighlighter = True\<rparr>"
| "PEN_STYLES HIGHLIGHTER_2 = Some \<lparr>opacity = 0.45, isHighlighter = True\<rparr>"
| "PEN_STYLES PAINTBRUSH_2 = Some \<lparr>opacity = 1.0, isHighlighter = False\<rparr>"
| "PEN_STYLES CALLIGRAPHY = Some \<lparr>opacity = 1.0, isHighlighter = False\<rparr>"
| "PEN_STYLES SHADER = Some \<lparr>opacity = 0.3, isHighlighter = True\<rparr>"
| "PEN_STYLES ERASER = None"
| "PEN_STYLES ERASER_AREA = None"
| "PEN_STYLES (OtherPen n) = None"

section \<open>\<open>pdf-renderer\<close>: helpers\<close>

definition getPenStyle :: "PenType \<Rightarrow> PenStyle" where
  "getPenStyle pen =
     (case PEN_STYLES pen of
        Some st \<Rightarrow> st
      | None \<Rightarrow> \<lparr>opacity = 1.0, isHighlighter = False\<rparr>)"

text \<open>An index outside the table falls back to \<open>COLOR_MAP[0]\<close>, which is black.\<close>

definition getColor :: "int \<Rightarrow> RGB" where
  "getColor colorIndex =
     (case COLOR_MAP colorIndex of
        Some c \<Rightarrow> c
      | None \<Rightarrow> (0, 0, 0))"

text \<open>
  \<open>getArgbColor\<close> returns the channels in the order \<open>(a, r, g, b)\<close>, each the byte of
  the packed colour divided by 255.
\<close>

definition getArgbColor :: "32 word \<Rightarrow> real \<times> real \<times> real \<times> real" where
  "getArgbColor argb =
     (real (unat ((drop_bit 24 argb) AND 0xFF)) / 255,
      real (unat ((drop_bit 16 argb) AND 0xFF)) / 255,
      real (unat ((drop_bit 8 argb) AND 0xFF)) / 255,
      real (unat (argb AND 0xFF)) / 255)"

definition WIDTH_FACTOR :: real where
  "WIDTH_FACTOR = 0.216"

fun pointWidthPt :: "Point \<Rightarrow> PenType \<Rightarrow> real" where
  "pointWidthPt point BALLPOINT_1 = max 0.3 (min (pt_width point * SCALE * WIDTH_FACTOR) 3.0)"
| "pointWidthPt point BALLPOINT_2 = max 0.3 (min (pt_width point * SCALE * WIDTH_FACTOR) 3.0)"
| "pointWidthPt point FINELINER_1 = max 0.3 (min (pt_width point * SCALE * WIDTH_FACTOR) 4.0)"
| "pointWidthPt point FINELINER_2 = max 0.3 (min (pt_width point * SCALE * WIDTH_FACTOR) 4.0)"
| "pointWidthPt point PENCIL_1 = max 0.2 (min (pt_width point * SCALE * WIDTH_FACTOR) 4.0)"
| "pointWidthPt point PENCIL_2 = max 0.2 (min (pt_width point * SCALE * WIDTH_FACTOR) 4.0)"
| "pointWidthPt point MECHANICAL_PENCIL_1 = max 0.2 (min (pt_width point * SCALE * WIDTH_FACTOR) 3.0)"
| "pointWidthPt point MECHANICAL_PENCIL_2 = max 0.2 (min (pt_width point * SCALE * WIDTH_FACTOR) 3.0)"
| "pointWidthPt point MARKER_1 = max 1.0 (min (pt_width point * SCALE * WIDTH_FACTOR) 15.0)"
| "pointWidthPt point MARKER_2 = max 1.0 (min (pt_width point * SCALE * WIDTH_FACTOR) 15.0)"
| "pointWidthPt point CALLIGRAPHY = max 0.2 (min (pt_width point * SCALE * WIDTH_FACTOR) 10.0)"
| "pointWidthPt point PAINTBRUSH_2 = max 0.3 (min (pt_width point * SCALE * WIDTH_FACTOR) 8.0)"
| "pointWidthPt point BRUSH = max 0.2 (min (pt_width point * SCALE * WIDTH_FACTOR) 10.0)"
| "pointWidthPt point _ = max 0.2 (min (pt_width point * SCALE * WIDTH_FACTOR) 20.0)"

section \<open>\<open>pdf-renderer\<close>: page geometry\<close>

record PageGeometry =
  xOffset :: real
  yOffset :: real
  pageWidthPt :: real
  pageHeightPt :: real

definition computePageGeometry :: "Page \<Rightarrow> PageGeometry" where
  "computePageGeometry page =
     (let halfScreenWidth = RM_SCREEN_WIDTH_PX / 2
      in \<lparr>xOffset = halfScreenWidth,
          yOffset = 0,
          pageWidthPt = RM_SCREEN_WIDTH_PX * COORD_SCALE,
          pageHeightPt = height page * SCALE\<rparr>)"

text \<open>\<open>toPdf\<close> returns the pair \<open>(px, py)\<close>.\<close>

definition toPdf :: "real \<Rightarrow> real \<Rightarrow> PageGeometry \<Rightarrow> real \<times> real" where
  "toPdf x y geo =
     ((x + xOffset geo) * COORD_SCALE,
      pageHeightPt geo - (y - yOffset geo) * COORD_SCALE)"

section \<open>\<open>pdf-renderer\<close>: text\<close>

text \<open>
  A JavaScript string is its list of UTF-16 code units. \<open>trim\<close> removes the white space
  and line terminators of ECMAScript at both ends; \<open>split\<close> cuts at every occurrence of
  the separator and always returns at least one piece.
\<close>

type_synonym JSString = "nat list"

definition isWhiteSpace :: "nat \<Rightarrow> bool" where
  "isWhiteSpace c =
     (c \<in> set [9, 10, 11, 12, 13, 32, 160, 5760, 8232, 8233, 8239, 8287, 12288, 65279]
      \<or> (8192 \<le> c \<and> c \<le> 8202))"

definition js_trim :: "JSString \<Rightarrow> JSString" where
  "js_trim s = rev (dropWhile isWhiteSpace (rev (dropWhile isWhiteSpace s)))"

fun js_split :: "nat \<Rightarrow> JSString \<Rightarrow> JSString list" where
  "js_split sep [] = [[]]"
| "js_split sep (c # cs) =
     (if c = sep then [] # js_split sep cs
      else (case js_split sep cs of
              w # ws \<Rightarrow> (c # w) # ws
            | [] \<Rightarrow> [[c]]))"

definition STYLE_PLAIN :: nat where "STYLE_PLAIN = 1"
definition STYLE_HEADING :: nat where "STYLE_HEADING = 2"
definition STYLE_BOLD :: nat where "STYLE_BOLD = 3"
definition STYLE_BULLET :: nat where "STYLE_BULLET = 4"
definition STYLE_BULLET2 :: nat where "STYLE_BULLET2 = 5"
definition STYLE_CHECKBOX :: nat where "STYLE_CHECKBOX = 6"
definition STYLE_CHECKBOX_CHECKED :: nat where "STYLE_CHECKBOX_CHECKED = 7"
definition STYLE_NUMBERED :: nat where "STYLE_NUMBERED = 10"

datatype StandardFont = Helvetica | HelveticaBold

record FontSetting =
  fontKey :: StandardFont
  fontSize :: real
  lineHeight :: real

definition STYLE_FONTS :: "nat \<rightharpoonup> FontSetting" where
  "STYLE_FONTS = map_of
     [(STYLE_HEADING, \<lparr>fontKey = HelveticaBold, fontSize = 18, lineHeight = 26\<rparr>),
      (STYLE_BOLD, \<lparr>fontKey = HelveticaBold, fontSize = 13, lineHeight = 23\<rparr>)]"

definition DEFAULT_FONT :: FontSetting where
  "DEFAULT_FONT = \<lparr>fontKey = Helvetica, fontSize = 10, lineHeight = 23\<rparr>"

definition getFontSetting :: "nat \<Rightarrow> FontSetting" where
  "getFontSetting style =
     (case STYLE_FONTS style of
        Some setting \<Rightarrow> setting
      | None \<Rightarrow> DEFAULT_FONT)"

text \<open>
  \<open>sanitizeForWinAnsi\<close>: the separators U+2028 and U+2029 become a newline, then every
  code unit that is neither at most 255 nor the bullet U+2022 is removed. Control
  characters such as TAB (9) and CR (13) are at most 255 and stay.
\<close>

definition sanitizeForWinAnsi :: "JSString \<Rightarrow> JSString" where
  "sanitizeForWinAnsi t =
     filter (\<lambda>c. c \<le> 255 \<or> c = 8226)
       (map (\<lambda>c. if c = 8233 then 10 else c)
          (map (\<lambda>c. if c = 8232 then 10 else c) t))"

text \<open>
  The fonts belong to pdf-lib, which is a parameter of the text pass.
  \<open>widthOfTextAtSize font t size\<close> is the measure of a text, \<open>None\<close> where the call
  throws (the font's encoding has no glyph for a character of the text);
  \<open>canDrawText font t\<close> tells whether \<open>drawText\<close> accepts the text in that font.
\<close>

record PdfLib =
  widthOfTextAtSize :: "StandardFont \<Rightarrow> JSString \<Rightarrow> real \<Rightarrow> real option"
  canDrawText :: "StandardFont \<Rightarrow> JSString \<Rightarrow> bool"

datatype ConvertError = NoPagesFound | PdfLibError

text \<open>
  The loop of \<open>wrapText\<close> over the words, on the lines pushed so far and the current
  line. A measure that throws ends the loop with the error.
\<close>

fun wrapLoop ::
  "(JSString \<Rightarrow> real option) \<Rightarrow> real \<Rightarrow> JSString list \<Rightarrow> JSString list \<Rightarrow> JSString
   \<Rightarrow> ConvertError + (JSString list \<times> JSString)" where
  "wrapLoop widthOf maxWidth [] lines currentLine = Inr (lines, currentLine)"
| "wrapLoop widthOf maxWidth (word # ws) lines currentLine =
     (let test = js_trim (currentLine @ [32] @ word)
      in case widthOf test of
           None \<Rightarrow> Inl PdfLibError
         | Some w \<Rightarrow>
             if w \<le> maxWidth \<or> currentLine = []
             then wrapLoop widthOf maxWidth ws lines test
             else wrapLoop widthOf maxWidth ws (lines @ [currentLine]) word)"

definition wrapText ::
  "PdfLib \<Rightarrow> JSString \<Rightarrow> real \<Rightarrow> StandardFont \<Rightarrow> real \<Rightarrow> ConvertError + JSString list" where
  "wrapText lib t maxWidth font fontSz =
     (case wrapLoop (\<lambda>test. widthOfTextAtSize lib font test fontSz) maxWidth (js_split 32 t) [] [] of
        Inl e \<Rightarrow> Inl e
      | Inr (lines, currentLine) \<Rightarrow>
          let lines' = (if currentLine \<noteq> [] then lines @ [currentLine] else lines)
          in Inr (if length lines' > 0 then lines' else [[]]))"

definition getStylePrefix :: "nat \<Rightarrow> nat \<Rightarrow> JSString" where
  "getStylePrefix style paraIndex =
     (if style = STYLE_BULLET then [32, 32, 8226, 32]
      else if style = STYLE_BULLET2 then [32, 32, 32, 32, 32, 32, 8226, 32]
      else if style = STYLE_CHECKBOX then [91, 32, 93, 32]
      else if style = STYLE_CHECKBOX_CHECKED then [91, 120, 93, 32]
      else if style = STYLE_NUMBERED then [49, 46, 32]
      else [])"

definition isBoldStyle :: "nat \<Rightarrow> bool" where
  "isBoldStyle style = (style = STYLE_HEADING \<or> style = STYLE_BOLD)"

section \<open>\<open>pdf-renderer\<close>: drawing operations\<close>

text \<open>
  The renderer draws by calling methods of a pdf-lib page. The page is modelled by the
  list of calls made on it, in order:
  \<^item> \<open>DrawLine start end thickness color opacity\<close> is \<open>drawLine\<close> (always with a round
    line cap);
  \<^item> \<open>SetLineJoinRound\<close> is \<open>pushOperators(setLineJoin(LineJoinStyle.Round))\<close>, which
    sets graphics state and draws nothing;
  \<^item> \<open>DrawSvgPath d borderColor borderWidth borderOpacity y\<close> is \<open>drawSvgPath\<close> (always
    with a round border line cap);
  \<^item> \<open>DrawText line x y size font\<close> is \<open>drawText\<close> (always in black).
  The path string \<open>d\<close> is kept as its list of commands, \<open>M x y\<close> then \<open>L x y\<close>, with
  the numbers that \<open>toFixed(2)\<close> prints.
\<close>

datatype SvgCmd = MoveTo real real | LineTo real real

datatype PdfOp =
    DrawLine "real \<times> real" "real \<times> real" real RGB real
  | SetLineJoinRound
  | DrawSvgPath "SvgCmd list" RGB real real real
  | DrawText JSString real real real StandardFont

fun isDrawing :: "PdfOp \<Rightarrow> bool" where
  "isDrawing (DrawLine s e w c a) = True"
| "isDrawing SetLineJoinRound = False"
| "isDrawing (DrawSvgPath d c w a y) = True"
| "isDrawing (DrawText t x y sz font) = True"

fun opColor :: "PdfOp \<Rightarrow> RGB option" where
  "opColor (DrawLine s e w c a) = Some c"
| "opColor SetLineJoinRound = None"
| "opColor (DrawSvgPath d c w a y) = Some c"
| "opColor (DrawText t x y sz font) = Some (0, 0, 0)"

fun opOpacity :: "PdfOp \<Rightarrow> real option" where
  "opOpacity (DrawLine s e w c a) = Some a"
| "opOpacity SetLineJoinRound = None"
| "opOpacity (DrawSvgPath d c w a y) = Some a"
| "opOpacity (DrawText t x y sz font) = None"

fun opWidth :: "PdfOp \<Rightarrow> real option" where
  "opWidth (DrawLine s e w c a) = Some w"
| "opWidth SetLineJoinRound = None"
| "opWidth (DrawSvgPath d c w a y) = Some w"
| "opWidth (DrawText t x y sz font) = None"

text \<open>
  \<open>v.toFixed(2)\<close>: the sign is taken off, the magnitude is rounded to the nearest
  hundredth with a tie going up, and the sign is put back. The value is the number
  printed, for the real number \<open>v\<close>. Where \<open>v\<close> is a decimal tie, the double that the
  code holds lies just below or above it and is printed accordingly; the properties
  below use only that the printed number is within half a hundredth of \<open>v\<close>.
\<close>

definition toFixed2 :: "real \<Rightarrow> real" where
  "toFixed2 v =
     (if v < 0 then - (real_of_int \<lfloor>- v * 100 + 1 / 2\<rfloor> / 100)
      else real_of_int \<lfloor>v * 100 + 1 / 2\<rfloor> / 100)"

section \<open>\<open>pdf-renderer\<close>: strokes\<close>

definition renderHighlighterStroke ::
  "Stroke \<Rightarrow> RGB \<Rightarrow> real \<Rightarrow> PageGeometry \<Rightarrow> PdfOp list" where
  "renderHighlighterStroke stroke col opac geo =
     (if length (points stroke) < 2 then []
      else
        let widths = sort (map pt_width (points stroke));
            medianRaw = widths ! (length widths div 2) * SCALE * WIDTH_FACTOR;
            medianW = max 1.0 (min medianRaw 15.0);
            effectiveOpacity = opac;
            first = toPdf (pt_x (points stroke ! 0)) (pt_y (points stroke ! 0)) geo;
            d = MoveTo (toFixed2 (fst first)) (toFixed2 (pageHeightPt geo - snd first))
                # map (\<lambda>i. let pt = toPdf (pt_x (points stroke ! i)) (pt_y (points stroke ! i)) geo
                           in LineTo (toFixed2 (fst pt)) (toFixed2 (pageHeightPt geo - snd pt)))
                    [1..<length (points stroke)]
        in [SetLineJoinRound,
            DrawSvgPath d col medianW effectiveOpacity (pageHeightPt geo)])"

definition renderStroke :: "Stroke \<Rightarrow> PageGeometry \<Rightarrow> PdfOp list" where
  "renderStroke stroke geo =
     (if length (points stroke) < 2 then []
      else if penType stroke = ERASER \<or> penType stroke = ERASER_AREA then []
      else
        let style = getPenStyle (penType stroke);
            (col, opac) =
              (case colorArgb stroke of
                 Some packed \<Rightarrow>
                   (case getArgbColor packed of
                      (a, r, g, b) \<Rightarrow>
                        ((r, g, b),
                         if isHighlighter style \<and> penType stroke = SHADER then a
                         else opacity style))
               | None \<Rightarrow> (getColor (color stroke), opacity style))
        in if isHighlighter style then renderHighlighterStroke stroke col opac geo
           else map (\<lambda>i. let prev = points stroke ! (i - 1);
                              curr = points stroke ! i;
                              w = pointWidthPt curr (penType stroke)
                          in DrawLine (toPdf (pt_x prev) (pt_y prev) geo)
                                      (toPdf (pt_x curr) (pt_y curr) geo)
                                      w col opac)
                  [1..<length (points stroke)])"

section \<open>\<open>pdf-renderer\<close>: text blocks\<close>

text \<open>
  The inner loop of \<open>renderTextBlock\<close> over the wrapped lines of a paragraph: the cursor
  goes down by the line height, then the line is drawn. The result is the cursor and the
  calls made.
\<close>

fun drawLines ::
  "PdfLib \<Rightarrow> JSString list \<Rightarrow> real \<Rightarrow> FontSetting \<Rightarrow> StandardFont \<Rightarrow> real \<Rightarrow> PdfOp list
   \<Rightarrow> ConvertError + (real \<times> PdfOp list)" where
  "drawLines lib [] blockX setting activeFont cursorY ops = Inr (cursorY, ops)"
| "drawLines lib (line # ls) blockX setting activeFont cursorY ops =
     (let cursorY' = cursorY - lineHeight setting
      in if canDrawText lib activeFont line
         then drawLines lib ls blockX setting activeFont cursorY'
                (ops @ [DrawText line blockX cursorY' (fontSize setting) activeFont])
         else Inl PdfLibError)"

text \<open>
  The outer loop over the paragraphs, on the paragraph index, the cursor, the character
  offset and the calls made. The regular font is Helvetica, the bold one Helvetica-Bold.
\<close>

fun renderParagraphs ::
  "PdfLib \<Rightarrow> TextBlock \<Rightarrow> real \<Rightarrow> real \<Rightarrow> JSString list \<Rightarrow> nat \<Rightarrow> real \<Rightarrow> nat \<Rightarrow> PdfOp list
   \<Rightarrow> ConvertError + PdfOp list" where
  "renderParagraphs lib tb blockX blockWidthPt [] paraIndex cursorY charOffset ops = Inr ops"
| "renderParagraphs lib tb blockX blockWidthPt (para # rest) paraIndex cursorY charOffset ops =
     (let style = (case paragraphStyles tb charOffset of Some st \<Rightarrow> st | None \<Rightarrow> STYLE_PLAIN);
          setting = getFontSetting style;
          activeFont = (if isBoldStyle style then HelveticaBold else Helvetica);
          prefix = getStylePrefix style paraIndex
      in if js_trim para \<noteq> []
         then (case wrapText lib (prefix @ para) blockWidthPt activeFont (fontSize setting) of
                 Inl e \<Rightarrow> Inl e
               | Inr lines \<Rightarrow>
                   (case drawLines lib lines blockX setting activeFont cursorY ops of
                      Inl e \<Rightarrow> Inl e
                    | Inr (cursorY', ops') \<Rightarrow>
                        renderParagraphs lib tb blockX blockWidthPt rest (paraIndex + 1) cursorY'
                          (charOffset + (length para + 1)) ops'))
         else renderParagraphs lib tb blockX blockWidthPt rest (paraIndex + 1)
                (cursorY - lineHeight setting) (charOffset + (length para + 1)) ops)"

definition renderTextBlock ::
  "PdfLib \<Rightarrow> TextBlock \<Rightarrow> PageGeometry \<Rightarrow> PdfOp list \<Rightarrow> ConvertError + PdfOp list" where
  "renderTextBlock lib tb geo ops =
     (if js_trim (tb_text tb) = [] then Inr ops
      else
        let blockX = fst (toPdf (posX tb) (posY tb) geo);
            blockWidthPt = tb_width tb * COORD_SCALE;
            sanitized = sanitizeForWinAnsi (tb_text tb);
            paragraphs = js_split 10 sanitized;
            cursorY = snd (toPdf 0 (posY tb) geo)
        in renderParagraphs lib tb blockX blockWidthPt paragraphs 0 cursorY 0 ops)"

text \<open>The loop of \<open>renderPageToPdf\<close> over the text blocks of the page.\<close>

fun renderTextBlocks ::
  "PdfLib \<Rightarrow> TextBlock list \<Rightarrow> PageGeometry \<Rightarrow> PdfOp list \<Rightarrow> ConvertError + PdfOp list" where
  "renderTextBlocks lib [] geo ops = Inr ops"
| "renderTextBlocks lib (tb # tbs) geo ops =
     (case renderTextBlock lib tb geo ops of
        Inl e \<Rightarrow> Inl e
      | Inr ops' \<Rightarrow> renderTextBlocks lib tbs geo ops')"

section \<open>\<open>pdf-renderer\<close>: pages\<close>

text \<open>
  A \<open>Uint8Array\<close> is a view: its bytes, and the offset of the view in the buffer below it.
\<close>

record Uint8Array =
  byteOffset :: nat
  bytes :: "8 word list"

text \<open>
  What \<open>renderPageToPdf\<close> returns is a one-page document. The model keeps the size the
  page is created with, the calls of the two stroke passes in order, the calls of the
  text pass that follows them, and the background the annotation is merged over, if one is
  given (\<open>mergeWithBackground\<close> catches its own errors). Where the text pass throws,
  nothing catches the error and no document is returned. The other calls into pdf-lib
  (creating, loading and saving the documents the renderer itself makes, embedding the
  two standard fonts, drawing lines and paths) are taken to return.
\<close>

record PdfPage =
  pageSize :: "real \<times> real"
  strokeOps :: "PdfOp list"
  textOps :: "PdfOp list"
  background :: "Uint8Array option"

text \<open>
  One pass over the layers and their strokes: the two nested \<open>for\<close> loops, run on the
  calls made so far. The first pass takes the strokes whose pen style is a highlighter,
  the second the others.
\<close>

definition strokePass :: "bool \<Rightarrow> Page \<Rightarrow> PageGeometry \<Rightarrow> PdfOp list \<Rightarrow> PdfOp list" where
  "strokePass highlighters page geo ops0 =
     fold (\<lambda>layer ops1.
             fold (\<lambda>stroke ops2.
                     let ps = getPenStyle (penType stroke)
                     in if isHighlighter ps = highlighters
                        then ops2 @ renderStroke stroke geo
                        else ops2)
                  (strokes layer) ops1)
          (layers page) ops0"

definition renderPageToPdf :: "PdfLib \<Rightarrow> Page \<Rightarrow> Uint8Array option \<Rightarrow> ConvertError + PdfPage" where
  "renderPageToPdf lib page backgroundPdf =
     (let geo = computePageGeometry page;
          ops1 = strokePass True page geo [];
          ops2 = strokePass False page geo ops1
      in case renderTextBlocks lib (textBlocks page) geo [] of
           Inl e \<Rightarrow> Inl e
         | Inr ops3 \<Rightarrow>
             Inr \<lparr>pageSize = (pageWidthPt geo, pageHeightPt geo),
                  strokeOps = ops2,
                  textOps = ops3,
                  background = backgroundPdf\<rparr>)"

text \<open>
  The loop of \<open>renderNotebookToPdf\<close> from page \<open>i\<close> on: the first page whose rendering
  throws ends it with the error.
\<close>

function renderNotebookLoop ::
  "PdfLib \<Rightarrow> Page list \<Rightarrow> Uint8Array option list \<Rightarrow> nat \<Rightarrow> PdfPage list
   \<Rightarrow> ConvertError + PdfPage list" where
  "renderNotebookLoop lib pgs backgroundPdfs i out =
     (if i < length pgs
      then (let bg = (if i < length backgroundPdfs then backgroundPdfs ! i else None)
            in case renderPageToPdf lib (pgs ! i) bg of
                 Inl e \<Rightarrow> Inl e
               | Inr pagePdf \<Rightarrow> renderNotebookLoop lib pgs backgroundPdfs (i + 1) (out @ [pagePdf]))
      else Inr out)"
  by pat_completeness auto
termination
  by (relation "measure (\<lambda>(lib, pgs, backgroundPdfs, i, out). length pgs - i)") auto

declare renderNotebookLoop.simps [simp del]

definition renderNotebookToPdf ::
  "PdfLib \<Rightarrow> Page list \<Rightarrow> Uint8Array option list \<Rightarrow> ConvertError + PdfPage list" where
  "renderNotebookToPdf lib pgs backgroundPdfs = renderNotebookLoop lib pgs backgroundPdfs 0 []"

section \<open>\<open>document-converter\<close>\<close>

record PageInfo =
  info_pageId :: string
  rmData :: "Uint8Array option"
  template :: "string option"
  verticalScroll :: "real option"

text \<open>
  Of \<open>DocumentContent\<close> the conversion reads the pages and the original PDF.
\<close>

record DocumentContent =
  docId :: string
  name :: string
  pages :: "PageInfo list"
  originalPdf :: "Uint8Array option"

definition emptyPage :: "string \<Rightarrow> Page" where
  "emptyPage pid =
     \<lparr>pageId = pid, layers = [], textSpans = [], textBlocks = [],
      width = 1404, height = 1872\<rparr>"

text \<open>
  The three nested loops that find \<open>maxY\<close>, starting from 0.
\<close>

definition maxStrokeY :: "Page \<Rightarrow> real" where
  "maxStrokeY page =
     fold (\<lambda>layer m1.
             fold (\<lambda>stroke m2.
                     fold (\<lambda>pt maxY. if pt_y pt > maxY then pt_y pt else maxY)
                          (points stroke) m2)
                  (strokes layer) m1)
          (layers page) 0"

text \<open>
  The bytes handed to the parser: \<open>new Uint8Array(rmData)\<close> copies the view into a fresh
  buffer, of which \<open>slice\<close> keeps the part from the view's own \<open>byteOffset\<close> on.
\<close>

definition rmBuffer :: "Uint8Array \<Rightarrow> 8 word list" where
  "rmBuffer data = drop (byteOffset data) (bytes data)"

text \<open>
  The first half of the body of the loop of \<open>convertToPdf\<close>: the page pushed on
  \<open>parsedPages\<close> for one \<open>PageInfo\<close>. \<open>parseRmFile\<close> belongs to \<open>rm-parser\<close> and is
  a parameter: it gives \<open>None\<close> where the parser throws.
\<close>

definition parsedPage :: "(8 word list \<Rightarrow> Page option) \<Rightarrow> PageInfo \<Rightarrow> Page" where
  "parsedPage parseRmFile pageInfo =
     (case rmData pageInfo of
        None \<Rightarrow> emptyPage (info_pageId pageInfo)
      | Some data \<Rightarrow>
          (case parseRmFile (rmBuffer data) of
             None \<Rightarrow> emptyPage (info_pageId pageInfo)
           | Some parsed \<Rightarrow>
               let page = parsed\<lparr>pageId := info_pageId pageInfo\<rparr>
               in (case verticalScroll pageInfo of
                     None \<Rightarrow> page
                   | Some v \<Rightarrow>
                       let defaultHeight = height page;
                           threshold = defaultHeight * 1.05;
                           maxY = maxStrokeY page;
                           scaledHeight = maxY * 0.885
                       in if scaledHeight > threshold
                          then page\<lparr>height := scaledHeight\<rparr>
                          else page)))"

text \<open>
  The second half of the body: the background pushed for page \<open>i\<close>. \<open>extractPdfPage\<close>
  works through pdf-lib and is a parameter: it gives \<open>None\<close> for \<open>null\<close> and where it
  throws.
\<close>

definition backgroundPdf ::
  "(Uint8Array \<Rightarrow> nat \<Rightarrow> Uint8Array option) \<Rightarrow> DocumentContent \<Rightarrow> nat \<Rightarrow> Uint8Array option" where
  "backgroundPdf extractPdfPage content i =
     (case originalPdf content of
        Some pdf \<Rightarrow> extractPdfPage pdf i
      | None \<Rightarrow> None)"

text \<open>
  \<open>convertToPdf\<close>, from the parsed \<open>DocumentContent\<close> on. The result is the error
  thrown, by the converter itself or by the rendering, or the pages of the document
  returned.
\<close>

definition convertToPdf ::
  "PdfLib \<Rightarrow> (8 word list \<Rightarrow> Page option) \<Rightarrow> (Uint8Array \<Rightarrow> nat \<Rightarrow> Uint8Array option)
   \<Rightarrow> DocumentContent \<Rightarrow> ConvertError + PdfPage list" where
  "convertToPdf lib parseRmFile extractPdfPage content =
     (if length (pages content) = 0 then Inl NoPagesFound
      else
        let parsedPages = map (parsedPage parseRmFile) (pages content);
            backgroundPdfs =
              map (backgroundPdf extractPdfPage content) [0..<length (pages content)]
        in if length parsedPages = 1
           then (case renderPageToPdf lib (parsedPages ! 0) (backgroundPdfs ! 0) of
                   Inl e \<Rightarrow> Inl e
                 | Inr pagePdf \<Rightarrow> Inr [pagePdf])
           else renderNotebookToPdf lib parsedPages backgroundPdfs)"

section \<open>Auxiliary notions for stating the properties\<close>

text \<open>All strokes of a page, layer by layer and in stroke order within a layer.\<close>

definition allStrokes :: "Page \<Rightarrow> Stroke list" where
  "allStrokes page = concat (map strokes (layers page))"

text \<open>The y-coordinates of all points of all strokes of a page.\<close>

definition strokeYs :: "Page \<Rightarrow> real list" where
  "strokeYs page = concat (map (\<lambda>s. map pt_y (points s)) (allStrokes page))"

text \<open>
  The results of a list of fallible steps, in order: the first error, or all values.
\<close>

fun collect :: "('e + 'a) list \<Rightarrow> 'e + 'a list" where
  "collect [] = Inr []"
| "collect (r # rs) =
     (case r of
        Inl e \<Rightarrow> Inl e
      | Inr v \<Rightarrow> (case collect rs of Inl e \<Rightarrow> Inl e | Inr vs \<Rightarrow> Inr (v # vs)))"

text \<open>The point a path command goes to, and the kind of the command.\<close>

fun svgTarget :: "SvgCmd \<Rightarrow> real \<times> real" where
  "svgTarget (MoveTo x y) = (x, y)"
| "svgTarget (LineTo x y) = (x, y)"

fun isMoveTo :: "SvgCmd \<Rightarrow> bool" where
  "isMoveTo (MoveTo x y) = True"
| "isMoveTo (LineTo x y) = False"

fun isLineTo :: "SvgCmd \<Rightarrow> bool" where
  "isLineTo (MoveTo x y) = False"
| "isLineTo (LineTo x y) = True"

section \<open>Example inputs\<close>

text \<open>
  A two-point stroke from device (-213, 0) to (290, 1000), of a given pen and with a given
  colour override, and the geometry of a page of default height.
\<close>

definition ex_points :: "Point list" where
  "ex_points =
     [\<lparr>pt_x = -213, pt_y = 0, pt_width = 20\<rparr>,
      \<lparr>pt_x = 290, pt_y = 1000, pt_width = 30\<rparr>]"

definition ex_stroke :: "PenType \<Rightarrow> 32 word option \<Rightarrow> Stroke" where
  "ex_stroke pen argb = \<lparr>penType = pen, color = 3, colorArgb = argb, points = ex_points\<rparr>"

definition ex_geo :: PageGeometry where
  "ex_geo = computePageGeometry (emptyPage ''p1'')"

definition ex_highlight :: Stroke where
  "ex_highlight =
     \<lparr>penType = HIGHLIGHTER_2, color = 9, colorArgb = None,
      points = [\<lparr>pt_x = -213, pt_y = 0, pt_width = 20\<rparr>,
                \<lparr>pt_x = 290, pt_y = 1000, pt_width = 30\<rparr>,
                \<lparr>pt_x = 0, pt_y = 500, pt_width = 50\<rparr>,
                \<lparr>pt_x = 10, pt_y = 600, pt_width = 40\<rparr>]\<rparr>"

text \<open>
  A page as the parser may return it, with one fineliner stroke of two points whose
  largest y is \<open>ymax\<close>, and a document around it. The parser and the extraction of a
  background page are parameters of the conversion: \<open>ex_parse p\<close> decodes every buffer
  to \<open>p\<close>, \<open>failing_parse\<close> throws on every buffer, \<open>no_extract\<close> finds no background.
\<close>

definition ex_page :: "real \<Rightarrow> Page" where
  "ex_page ymax =
     \<lparr>pageId = '''',
      layers = [\<lparr>strokes = [\<lparr>penType = FINELINER_1, color = 0, colorArgb = None,
                              points = [\<lparr>pt_x = -213, pt_y = 100, pt_width = 20\<rparr>,
                                        \<lparr>pt_x = 290, pt_y = ymax, pt_width = 30\<rparr>]\<rparr>]\<rparr>],
      textSpans = [], textBlocks = [], width = 1404, height = 1872\<rparr>"

definition ex_data :: Uint8Array where
  "ex_data = \<lparr>byteOffset = 0, bytes = [1, 2, 3]\<rparr>"

definition ex_info :: "string \<Rightarrow> real option \<Rightarrow> PageInfo" where
  "ex_info pid vs =
     \<lparr>info_pageId = pid, rmData = Some ex_data, template = None, verticalScroll = vs\<rparr>"

definition ex_doc :: "PageInfo list \<Rightarrow> DocumentContent" where
  "ex_doc infos = \<lparr>docId = ''d1'', name = ''Untitled'', pages = infos, originalPdf = None\<rparr>"

definition ex_parse :: "Page \<Rightarrow> 8 word list \<Rightarrow> Page option" where
  "ex_parse p buf = Some p"

definition failing_parse :: "8 word list \<Rightarrow> Page option" where
  "failing_parse buf = None"

definition no_extract :: "Uint8Array \<Rightarrow> nat \<Rightarrow> Uint8Array option" where
  "no_extract pdf i = None"

text \<open>
  Two instances of the library parameter. \<open>accepting_lib\<close> measures and draws every text.
  \<open>winansi_lib\<close> does what the WinAnsi encoding of pdf-lib's standard fonts does with
  control characters: it has glyphs for the printable characters 32 to 126 and 160 to 255
  and for the bullet, and the measure of a text with any other character throws.
\<close>

definition accepting_lib :: PdfLib where
  "accepting_lib =
     \<lparr>widthOfTextAtSize = (\<lambda>font t sz. Some (sz * real (length t) / 2)),
      canDrawText = (\<lambda>font t. True)\<rparr>"

definition winAnsiGlyph :: "nat \<Rightarrow> bool" where
  "winAnsiGlyph c = ((32 \<le> c \<and> c \<le> 126) \<or> (160 \<le> c \<and> c \<le> 255) \<or> c = 8226)"

definition winansi_lib :: PdfLib where
  "winansi_lib =
     \<lparr>widthOfTextAtSize =
        (\<lambda>font t sz. if list_all winAnsiGlyph t then Some (sz * real (length t) / 2) else None),
      canDrawText = (\<lambda>font t. list_all winAnsiGlyph t)\<rparr>"

text \<open>
  A page as the parser may return it for typed text: no strokes and one text block whose
  text is \<open>a\<close>, TAB, \<open>b\<close>.
\<close>

definition ex_tab_page :: Page where
  "ex_tab_page =
     \<lparr>pageId = '''', layers = [], textSpans = [],
      textBlocks = [\<lparr>posX = -400, posY = 100, tb_width = 800, tb_text = [97, 9, 98],
                     paragraphStyles = Map.empty\<rparr>],
      width = 1404, height = 1872\<rparr>"

section \<open>Coordinate mapping\<close>

text \<open>
  Claim C1. On the geometry of any page and for any device y, \<open>toPdf\<close> sends device
  x = -213 to an output x within 0.2pt of 189.4pt and device x = 290 to an output x within
  0.2pt of 348.9pt; for every device x the output x is \<open>(x + 810) * 514 / 1620\<close>.
\<close>

theorem toPdf_x_calibration:
  "\<bar>fst (toPdf (-213) y (computePageGeometry page)) - 189.4\<bar> \<le> 0.2
   \<and> \<bar>fst (toPdf 290 y (computePageGeometry page)) - 348.9\<bar> \<le> 0.2
   \<and> fst (toPdf x y (computePageGeometry page)) = (x + 810) * 514 / 1620"
  by (simp add: toPdf_def computePageGeometry_def COORD_SCALE_def RM_SCREEN_WIDTH_PX_def)

section \<open>Width clamping\<close>

text \<open>
  Claim C5. Whatever the raw width of the point (zero, huge, any real), \<open>pointWidthPt\<close>
  stays within the bounds of the pen's branch: fineliners in [0.3, 4.0], markers in
  [1.0, 15.0], ballpoints in [0.3, 3.0], pencils in [0.2, 4.0], mechanical pencils in
  [0.2, 3.0], calligraphy and brush in [0.2, 10.0], paintbrush in [0.3, 8.0], and every
  pen type whatsoever in [0.2, 20.0].
\<close>

theorem pointWidthPt_clamped:
  "0.3 \<le> pointWidthPt p FINELINER_1 \<and> pointWidthPt p FINELINER_1 \<le> 4.0
   \<and> 0.3 \<le> pointWidthPt p FINELINER_2 \<and> pointWidthPt p FINELINER_2 \<le> 4.0
   \<and> 1.0 \<le> pointWidthPt p MARKER_1 \<and> pointWidthPt p MARKER_1 \<le> 15.0
   \<and> 1.0 \<le> pointWidthPt p MARKER_2 \<and> pointWidthPt p MARKER_2 \<le> 15.0
   \<and> 0.3 \<le> pointWidthPt p BALLPOINT_1 \<and> pointWidthPt p BALLPOINT_1 \<le> 3.0
   \<and> 0.3 \<le> pointWidthPt p BALLPOINT_2 \<and> pointWidthPt p BALLPOINT_2 \<le> 3.0
   \<and> 0.2 \<le> pointWidthPt p PENCIL_1 \<and> pointWidthPt p PENCIL_1 \<le> 4.0
   \<and> 0.2 \<le> pointWidthPt p PENCIL_2 \<and> pointWidthPt p PENCIL_2 \<le> 4.0
   \<and> 0.2 \<le> pointWidthPt p MECHANICAL_PENCIL_1 \<and> pointWidthPt p MECHANICAL_PENCIL_1 \<le> 3.0
   \<and> 0.2 \<le> pointWidthPt p MECHANICAL_PENCIL_2 \<and> pointWidthPt p MECHANICAL_PENCIL_2 \<le> 3.0
   \<and> 0.2 \<le> pointWidthPt p CALLIGRAPHY \<and> pointWidthPt p CALLIGRAPHY \<le> 10.0
   \<and> 0.3 \<le> pointWidthPt p PAINTBRUSH_2 \<and> pointWidthPt p PAINTBRUSH_2 \<le> 8.0
   \<and> 0.2 \<le> pointWidthPt p BRUSH \<and> pointWidthPt p BRUSH \<le> 10.0
   \<and> (\<forall>pen. 0.2 \<le> pointWidthPt p pen \<and> pointWidthPt p pen \<le> 20.0)"
proof -
  have "0.2 \<le> pointWidthPt p pen \<and> pointWidthPt p pen \<le> 20.0" for pen
    by (cases pen) auto
  then show ?thesis by auto
qed

text \<open>The bounds are reached: a zero width gives the lower one, a huge width the upper one.\<close>

lemma pointWidthPt_extremes:
  "pointWidthPt \<lparr>pt_x = 0, pt_y = 0, pt_width = 0\<rparr> FINELINER_1 = 0.3
   \<and> pointWidthPt \<lparr>pt_x = 0, pt_y = 0, pt_width = 1000000\<rparr> FINELINER_1 = 4.0
   \<and> pointWidthPt \<lparr>pt_x = 0, pt_y = 0, pt_width = 0\<rparr> MARKER_2 = 1.0
   \<and> pointWidthPt \<lparr>pt_x = 0, pt_y = 0, pt_width = 1000000\<rparr> MARKER_2 = 15.0"
  by (simp add: SCALE_def WIDTH_FACTOR_def RM_DEFAULT_WIDTH_PX_def)

section \<open>Strokes that draw nothing\<close>

text \<open>
  Claim C6. A stroke whose pen type is \<open>ERASER\<close> or \<open>ERASER_AREA\<close>, and a stroke with
  fewer than two points, makes \<open>renderStroke\<close> call nothing on the page.
\<close>

theorem renderStroke_suppressed:
  "penType s = ERASER \<or> penType s = ERASER_AREA \<or> length (points s) < 2
   \<Longrightarrow> renderStroke s geo = []"
  by (auto simp: renderStroke_def)

theorem renderStroke_suppressed_witness:
  "penType (ex_stroke ERASER None) = ERASER
   \<and> renderStroke (ex_stroke ERASER None) ex_geo = []
   \<and> penType (ex_stroke ERASER_AREA None) = ERASER_AREA
   \<and> renderStroke (ex_stroke ERASER_AREA None) ex_geo = []
   \<and> length (points ((ex_stroke FINELINER_1 None)\<lparr>points := [\<lparr>pt_x = 1, pt_y = 2, pt_width = 3\<rparr>]\<rparr>)) < 2
   \<and> renderStroke ((ex_stroke FINELINER_1 None)\<lparr>points := [\<lparr>pt_x = 1, pt_y = 2, pt_width = 3\<rparr>]\<rparr>) ex_geo = []
   \<and> renderStroke (ex_stroke FINELINER_1 None) ex_geo \<noteq> []"
  using renderStroke_suppressed [of "ex_stroke ERASER None" ex_geo]
    renderStroke_suppressed [of "ex_stroke ERASER_AREA None" ex_geo]
    renderStroke_suppressed
      [of "(ex_stroke FINELINER_1 None)\<lparr>points := [\<lparr>pt_x = 1, pt_y = 2, pt_width = 3\<rparr>]\<rparr>" ex_geo]
  by (simp add: ex_stroke_def ex_points_def renderStroke_def getPenStyle_def)

section \<open>Colour and opacity of a stroke\<close>

text \<open>
  For a stroke that is drawn (two points or more, no eraser), \<open>renderStroke\<close> with the
  colour and the opacity written out.
\<close>

lemma renderStroke_cases:
  assumes "2 \<le> length (points s)" "penType s \<noteq> ERASER" "penType s \<noteq> ERASER_AREA"
  shows "renderStroke s geo =
     (let style = getPenStyle (penType s);
          col = (case colorArgb s of
                   Some w \<Rightarrow> (real (unat ((drop_bit 16 w) AND 0xFF)) / 255,
                              real (unat ((drop_bit 8 w) AND 0xFF)) / 255,
                              real (unat (w AND 0xFF)) / 255)
                 | None \<Rightarrow> getColor (color s));
          opac = (case colorArgb s of
                   Some w \<Rightarrow> if isHighlighter style \<and> penType s = SHADER
                             then real (unat ((drop_bit 24 w) AND 0xFF)) / 255
                             else opacity style
                 | None \<Rightarrow> opacity style)
      in if isHighlighter style then renderHighlighterStroke s col opac geo
         else map (\<lambda>i. DrawLine (toPdf (pt_x (points s ! (i - 1))) (pt_y (points s ! (i - 1))) geo)
                                 (toPdf (pt_x (points s ! i)) (pt_y (points s ! i)) geo)
                                 (pointWidthPt (points s ! i) (penType s)) col opac)
                [1..<length (points s)])"
  using assms
  by (simp add: renderStroke_def getArgbColor_def Let_def split: option.splits)

lemma isHighlighter_SHADER: "isHighlighter (getPenStyle SHADER)"
  by (simp add: getPenStyle_def)

text \<open>
  Claim C7. When a stroke carries a packed ARGB colour, every drawing call that
  \<open>renderStroke\<close> makes for it has the RGB channels of the packed colour (each byte
  divided by 255), whatever the palette index of the stroke is; its opacity is the alpha
  byte divided by 255 when the pen is \<open>SHADER\<close>, and the default opacity of the pen's
  style for every other pen.
\<close>

theorem renderStroke_argb_override:
  assumes "colorArgb s = Some w"
  shows "(\<forall>op \<in> set (renderStroke s geo). isDrawing op \<longrightarrow>
            opColor op = Some (real (unat ((drop_bit 16 w) AND 0xFF)) / 255,
                               real (unat ((drop_bit 8 w) AND 0xFF)) / 255,
                               real (unat (w AND 0xFF)) / 255)
          \<and> opOpacity op = Some (if penType s = SHADER
                                  then real (unat ((drop_bit 24 w) AND 0xFF)) / 255
                                  else opacity (getPenStyle (penType s))))
         \<and> renderStroke (s\<lparr>color := c\<rparr>) geo = renderStroke s geo"
proof (cases "2 \<le> length (points s) \<and> penType s \<noteq> ERASER \<and> penType s \<noteq> ERASER_AREA")
  case False
  then show ?thesis by (auto simp: renderStroke_def)
next
  case True
  then have ops: "renderStroke s geo =
     (let style = getPenStyle (penType s);
          col = (real (unat ((drop_bit 16 w) AND 0xFF)) / 255,
                 real (unat ((drop_bit 8 w) AND 0xFF)) / 255,
                 real (unat (w AND 0xFF)) / 255);
          opac = (if isHighlighter style \<and> penType s = SHADER
                  then real (unat ((drop_bit 24 w) AND 0xFF)) / 255
                  else opacity style)
      in if isHighlighter style then renderHighlighterStroke s col opac geo
         else map (\<lambda>i. DrawLine (toPdf (pt_x (points s ! (i - 1))) (pt_y (points s ! (i - 1))) geo)
                                 (toPdf (pt_x (points s ! i)) (pt_y (points s ! i)) geo)
                                 (pointWidthPt (points s ! i) (penType s)) col opac)
                [1..<length (points s)])"
    using assms by (simp add: renderStroke_cases)
  have frame: "renderStroke (s\<lparr>color := c\<rparr>) geo = renderStroke s geo"
    using assms
    by (simp add: renderStroke_def renderHighlighterStroke_def Let_def getArgbColor_def)
  have "isDrawing op \<longrightarrow>
            opColor op = Some (real (unat ((drop_bit 16 w) AND 0xFF)) / 255,
                               real (unat ((drop_bit 8 w) AND 0xFF)) / 255,
                               real (unat (w AND 0xFF)) / 255)
          \<and> opOpacity op = Some (if penType s = SHADER
                                  then real (unat ((drop_bit 24 w) AND 0xFF)) / 255
                                  else opacity (getPenStyle (penType s)))"
    if "op \<in> set (renderStroke s geo)" for op
  proof (cases "isHighlighter (getPenStyle (penType s))")
    case hl: True
    with that ops True show ?thesis
      by (auto simp: renderHighlighterStroke_def Let_def isHighlighter_SHADER)
  next
    case nhl: False
    with that ops show ?thesis
      by (auto simp: Let_def isHighlighter_SHADER)
  qed
  with frame show ?thesis by blast
qed

theorem renderStroke_argb_override_witness:
  "colorArgb (ex_stroke SHADER (Some 0x80FF0000)) = Some 0x80FF0000
   \<and> map opColor (filter isDrawing (renderStroke (ex_stroke SHADER (Some 0x80FF0000)) ex_geo))
       = [Some (1, 0, 0)]
   \<and> map opOpacity (filter isDrawing (renderStroke (ex_stroke SHADER (Some 0x80FF0000)) ex_geo))
       = [Some (128 / 255)]
   \<and> colorArgb (ex_stroke HIGHLIGHTER_1 (Some 0x80FF0000)) = Some 0x80FF0000
   \<and> map opColor (filter isDrawing (renderStroke (ex_stroke HIGHLIGHTER_1 (Some 0x80FF0000)) ex_geo))
       = [Some (1, 0, 0)]
   \<and> map opOpacity (filter isDrawing (renderStroke (ex_stroke HIGHLIGHTER_1 (Some 0x80FF0000)) ex_geo))
       = [Some 0.45]
   \<and> colorArgb (ex_stroke PENCIL_1 (Some 0x80FF0000)) = Some 0x80FF0000
   \<and> map opColor (filter isDrawing (renderStroke (ex_stroke PENCIL_1 (Some 0x80FF0000)) ex_geo))
       = [Some (1, 0, 0)]
   \<and> map opOpacity (filter isDrawing (renderStroke (ex_stroke PENCIL_1 (Some 0x80FF0000)) ex_geo))
       = [Some 0.35]"
  using renderStroke_argb_override [of "ex_stroke SHADER (Some 0x80FF0000)" "0x80FF0000" ex_geo 3]
    renderStroke_argb_override [of "ex_stroke HIGHLIGHTER_1 (Some 0x80FF0000)" "0x80FF0000" ex_geo 3]
    renderStroke_argb_override [of "ex_stroke PENCIL_1 (Some 0x80FF0000)" "0x80FF0000" ex_geo 3]
  by (simp add: ex_stroke_def ex_points_def renderStroke_def renderHighlighterStroke_def
      getPenStyle_def getArgbColor_def Let_def)

section \<open>Highlighter strokes\<close>

lemma sorted_count_le:
  fixes xs :: "real list"
  assumes "sorted xs" "k < length xs"
  shows "Suc k \<le> length (filter (\<lambda>x. x \<le> xs ! k) xs)"
proof -
  have all: "\<forall>x \<in> set (take (Suc k) xs). x \<le> xs ! k"
  proof
    fix x assume "x \<in> set (take (Suc k) xs)"
    then obtain i where "i < Suc k" "i < length xs" "x = xs ! i"
      by (auto simp: in_set_conv_nth)
    with assms show "x \<le> xs ! k" by (simp add: sorted_nth_mono)
  qed
  have "length (filter (\<lambda>x. x \<le> xs ! k) xs)
        = length (filter (\<lambda>x. x \<le> xs ! k) (take (Suc k) xs))
          + length (filter (\<lambda>x. x \<le> xs ! k) (drop (Suc k) xs))"
    by (metis append_take_drop_id filter_append length_append)
  moreover have "filter (\<lambda>x. x \<le> xs ! k) (take (Suc k) xs) = take (Suc k) xs"
    using all by (simp add: filter_id_conv)
  moreover have "length (take (Suc k) xs) = Suc k"
    using assms by simp
  ultimately show ?thesis by simp
qed

lemma sorted_count_ge:
  fixes xs :: "real list"
  assumes "sorted xs" "k < length xs"
  shows "length xs - k \<le> length (filter (\<lambda>x. xs ! k \<le> x) xs)"
proof -
  have all: "\<forall>x \<in> set (drop k xs). xs ! k \<le> x"
  proof
    fix x assume "x \<in> set (drop k xs)"
    then obtain i where "i < length xs - k" "x = xs ! (k + i)"
      by (auto simp: in_set_conv_nth)
    with assms show "xs ! k \<le> x" by (simp add: sorted_nth_mono)
  qed
  have "length (filter (\<lambda>x. xs ! k \<le> x) xs)
        = length (filter (\<lambda>x. xs ! k \<le> x) (take k xs))
          + length (filter (\<lambda>x. xs ! k \<le> x) (drop k xs))"
    by (metis append_take_drop_id filter_append length_append)
  moreover have "filter (\<lambda>x. xs ! k \<le> x) (drop k xs) = drop k xs"
    using all by (simp add: filter_id_conv)
  ultimately show ?thesis by simp
qed

lemma count_sort:
  fixes ws :: "real list"
  shows "length (filter P (sort ws)) = length (filter P ws)"
  by (simp add: filter_sort)

lemma sort_nth_is_median:
  fixes ws :: "real list"
  assumes "ws \<noteq> []" and "m = sort ws ! (length ws div 2)"
  shows "m \<in> set ws"
    and "length ws \<le> 2 * length (filter (\<lambda>w. w \<le> m) ws)"
    and "length ws \<le> 2 * length (filter (\<lambda>w. m \<le> w) ws)"
proof -
  let ?k = "length ws div 2"
  have k: "?k < length (sort ws)" using assms by simp
  then have "sort ws ! ?k \<in> set (sort ws)" by (rule nth_mem)
  then show "m \<in> set ws" using assms by simp
  have "Suc ?k \<le> length (filter (\<lambda>w. w \<le> m) (sort ws))"
    using sorted_count_le [OF sorted_sort k] assms by simp
  then show "length ws \<le> 2 * length (filter (\<lambda>w. w \<le> m) ws)"
    unfolding count_sort by linarith
  have "length (sort ws) - ?k \<le> length (filter (\<lambda>w. m \<le> w) (sort ws))"
    using sorted_count_ge [OF sorted_sort k] assms by simp
  then show "length ws \<le> 2 * length (filter (\<lambda>w. m \<le> w) ws)"
    unfolding count_sort length_sort by linarith
qed

lemma highlighter_pens:
  "isHighlighter (getPenStyle pen) \<longleftrightarrow> pen = HIGHLIGHTER_1 \<or> pen = HIGHLIGHTER_2 \<or> pen = SHADER"
  by (cases pen) (simp_all add: getPenStyle_def)

lemma toFixed2_close: "\<bar>toFixed2 v - v\<bar> \<le> 1 / 200"
proof (cases "v < 0")
  case True
  define f where "f = real_of_int \<lfloor>- v * 100 + 1 / 2\<rfloor>"
  have b: "f \<le> - v * 100 + 1 / 2" "- v * 100 + 1 / 2 < f + 1"
    unfolding f_def by linarith+
  from True have eq: "toFixed2 v = - (f / 100)"
    by (simp add: toFixed2_def f_def)
  show ?thesis unfolding eq using b by linarith
next
  case False
  define f where "f = real_of_int \<lfloor>v * 100 + 1 / 2\<rfloor>"
  have b: "f \<le> v * 100 + 1 / 2" "v * 100 + 1 / 2 < f + 1"
    unfolding f_def by linarith+
  from False have eq: "toFixed2 v = f / 100"
    by (simp add: toFixed2_def f_def)
  show ?thesis unfolding eq using b by linarith
qed

lemma toFixed2_close_scaled [simp]: "\<bar>toFixed2 v - v\<bar> * 200 \<le> 1"
  using toFixed2_close [of v] by simp

text \<open>
  The path of a highlighter stroke: it starts with a move to the first point and goes on
  with a line to each following point, in the order of the points. The coordinates are
  those of \<open>toPdf\<close>, the y counted from the top of the page, printed with two decimals.
\<close>

lemma highlighter_path_shape:
  fixes ps :: "Point list" and geo :: PageGeometry
  defines "d \<equiv> MoveTo (toFixed2 (fst (toPdf (pt_x (ps ! 0)) (pt_y (ps ! 0)) geo)))
                     (toFixed2 (pageHeightPt geo - snd (toPdf (pt_x (ps ! 0)) (pt_y (ps ! 0)) geo)))
              # map (\<lambda>i. LineTo (toFixed2 (fst (toPdf (pt_x (ps ! i)) (pt_y (ps ! i)) geo)))
                               (toFixed2 (pageHeightPt geo
                                          - snd (toPdf (pt_x (ps ! i)) (pt_y (ps ! i)) geo))))
                    [1..<length ps]"
  assumes "2 \<le> length ps"
  shows "length d = length ps"
    and "isMoveTo (hd d)"
    and "list_all isLineTo (tl d)"
    and "\<forall>i < length ps.
           \<bar>fst (svgTarget (d ! i)) - fst (toPdf (pt_x (ps ! i)) (pt_y (ps ! i)) geo)\<bar> \<le> 1 / 200
           \<and> \<bar>snd (svgTarget (d ! i))
               - (pageHeightPt geo - snd (toPdf (pt_x (ps ! i)) (pt_y (ps ! i)) geo))\<bar> \<le> 1 / 200"
proof -
  show "length d = length ps" using assms(2) by (simp add: d_def)
  show "isMoveTo (hd d)" by (simp add: d_def)
  show "list_all isLineTo (tl d)" by (simp add: d_def list_all_iff)
  show "\<forall>i < length ps.
           \<bar>fst (svgTarget (d ! i)) - fst (toPdf (pt_x (ps ! i)) (pt_y (ps ! i)) geo)\<bar> \<le> 1 / 200
           \<and> \<bar>snd (svgTarget (d ! i))
               - (pageHeightPt geo - snd (toPdf (pt_x (ps ! i)) (pt_y (ps ! i)) geo))\<bar> \<le> 1 / 200"
  proof (intro allI impI)
    fix i assume i: "i < length ps"
    show "\<bar>fst (svgTarget (d ! i)) - fst (toPdf (pt_x (ps ! i)) (pt_y (ps ! i)) geo)\<bar> \<le> 1 / 200
           \<and> \<bar>snd (svgTarget (d ! i))
               - (pageHeightPt geo - snd (toPdf (pt_x (ps ! i)) (pt_y (ps ! i)) geo))\<bar> \<le> 1 / 200"
    proof (cases i)
      case 0
      then show ?thesis by (simp add: d_def toFixed2_close)
    next
      case (Suc k)
      with i have "k < length ps - 1" by simp
      then have "[1..<length ps] ! k = Suc k" by simp
      with Suc i show ?thesis by (simp add: d_def toFixed2_close)
    qed
  qed
qed

text \<open>
  Claim C8. For a stroke of a highlighter-class pen with two points or more,
  \<open>renderStroke\<close> sets the line join and then makes one single drawing call: one
  \<open>drawSvgPath\<close> of one continuous path. The path has one command per point of the
  stroke, a move to the first point followed by lines only, and its \<open>i\<close>-th command goes
  to the \<open>i\<close>-th point of the stroke as \<open>toPdf\<close> places it (y counted from the top of
  the page), up to the rounding to two decimals. The border width of the path is the
  median \<open>m\<close> of the raw point widths times \<open>SCALE\<close> and \<open>WIDTH_FACTOR\<close>, clamped to
  [1.0, 15.0]. The median is the element at index \<open>n div 2\<close> of the sorted widths: it is
  one of the widths, at least half of the widths are at most \<open>m\<close> and at least half are
  at least \<open>m\<close>.
\<close>

theorem renderStroke_highlighter_single_path:
  assumes "isHighlighter (getPenStyle (penType s))"
    and "2 \<le> length (points s)"
    and "m = sort (map pt_width (points s)) ! (length (points s) div 2)"
  shows "(\<exists>d col opac.
            renderStroke s geo =
              [SetLineJoinRound,
               DrawSvgPath d col (max 1.0 (min (m * SCALE * WIDTH_FACTOR) 15.0)) opac (pageHeightPt geo)]
            \<and> length d = length (points s)
            \<and> isMoveTo (hd d)
            \<and> list_all isLineTo (tl d)
            \<and> (\<forall>i < length (points s).
                  \<bar>fst (svgTarget (d ! i))
                    - fst (toPdf (pt_x (points s ! i)) (pt_y (points s ! i)) geo)\<bar> \<le> 1 / 200
                  \<and> \<bar>snd (svgTarget (d ! i))
                      - (pageHeightPt geo
                         - snd (toPdf (pt_x (points s ! i)) (pt_y (points s ! i)) geo))\<bar> \<le> 1 / 200))
         \<and> length (filter isDrawing (renderStroke s geo)) = 1
         \<and> m \<in> set (map pt_width (points s))
         \<and> length (points s) \<le> 2 * length (filter (\<lambda>p. pt_width p \<le> m) (points s))
         \<and> length (points s) \<le> 2 * length (filter (\<lambda>p. m \<le> pt_width p) (points s))"
proof -
  have pen: "penType s \<noteq> ERASER" "penType s \<noteq> ERASER_AREA"
    using assms(1) by (auto simp: highlighter_pens)
  have ne: "map pt_width (points s) \<noteq> []" using assms(2) by auto
  define d where "d = MoveTo (toFixed2 (fst (toPdf (pt_x (points s ! 0)) (pt_y (points s ! 0)) geo)))
                     (toFixed2 (pageHeightPt geo
                                - snd (toPdf (pt_x (points s ! 0)) (pt_y (points s ! 0)) geo)))
              # map (\<lambda>i. LineTo (toFixed2 (fst (toPdf (pt_x (points s ! i)) (pt_y (points s ! i)) geo)))
                               (toFixed2 (pageHeightPt geo
                                          - snd (toPdf (pt_x (points s ! i)) (pt_y (points s ! i)) geo))))
                    [1..<length (points s)]"
  have ops: "\<exists>col opac.
            renderStroke s geo =
              [SetLineJoinRound,
               DrawSvgPath d col (max 1.0 (min (m * SCALE * WIDTH_FACTOR) 15.0)) opac (pageHeightPt geo)]"
    using assms pen
    by (cases "case colorArgb s of None \<Rightarrow> getColor (color s)
             | Some w \<Rightarrow>
                 (real (unat (drop_bit 16 w AND 255)) / 255,
                  real (unat (drop_bit 8 w AND 255)) / 255,
                  real (unat (w AND 255)) / 255)")
      (simp add: renderStroke_cases renderHighlighterStroke_def Let_def d_def)
  then have one: "length (filter isDrawing (renderStroke s geo)) = 1"
    by auto
  note shape = highlighter_path_shape [OF assms(2), of geo, folded d_def]
  have med: "m = sort (map pt_width (points s)) ! (length (map pt_width (points s)) div 2)"
    using assms(3) by simp
  have c1: "length (points s) \<le> 2 * length (filter (\<lambda>p. pt_width p \<le> m) (points s))"
    using sort_nth_is_median(2) [OF ne med] by (simp add: filter_map comp_def)
  have c2: "length (points s) \<le> 2 * length (filter (\<lambda>p. m \<le> pt_width p) (points s))"
    using sort_nth_is_median(3) [OF ne med] by (simp add: filter_map comp_def)
  from ops shape one sort_nth_is_median(1) [OF ne med] c1 c2 show ?thesis by blast
qed

lemma ex_highlight_path:
  "renderStroke ex_highlight ex_geo =
     [SetLineJoinRound,
      DrawSvgPath [MoveTo 189.42 0, LineTo 349.01 317.28, LineTo 257 158.64, LineTo 260.17 190.37]
        (0.9804, 0.9059, 0.0980) (1028 / 325) 0.45 (2056 / 3)]"
  by (simp add: ex_highlight_def ex_geo_def renderStroke_def renderHighlighterStroke_def
      getPenStyle_def getColor_def COLOR_MAP_def Let_def upt_rec toPdf_def toFixed2_def
      computePageGeometry_def emptyPage_def COORD_SCALE_def SCALE_def WIDTH_FACTOR_def
      RM_SCREEN_WIDTH_PX_def RM_DEFAULT_WIDTH_PX_def)


theorem renderStroke_highlighter_single_path_witness:
  "isHighlighter (getPenStyle (penType ex_highlight))
   \<and> 2 \<le> length (points ex_highlight)
   \<and> sort (map pt_width (points ex_highlight)) ! (length (points ex_highlight) div 2) = 40
   \<and> length (filter isDrawing (renderStroke ex_highlight ex_geo)) = 1
   \<and> map opWidth (filter isDrawing (renderStroke ex_highlight ex_geo))
       = [Some (max 1.0 (min (40 * SCALE * WIDTH_FACTOR) 15.0))]
   \<and> renderStroke ex_highlight ex_geo =
       [SetLineJoinRound,
        DrawSvgPath [MoveTo 189.42 0, LineTo 349.01 317.28, LineTo 257 158.64, LineTo 260.17 190.37]
          (0.9804, 0.9059, 0.0980) (1028 / 325) 0.45 (2056 / 3)]"
proof -
  have h1: "isHighlighter (getPenStyle (penType ex_highlight))"
    by (simp add: ex_highlight_def getPenStyle_def)
  have h2: "2 \<le> length (points ex_highlight)"
    by (simp add: ex_highlight_def)
  have h3: "40 = sort (map pt_width (points ex_highlight)) ! (length (points ex_highlight) div 2)"
    by (simp add: ex_highlight_def)
  from renderStroke_highlighter_single_path [OF h1 h2 h3, of ex_geo]
  obtain d col opac where
    "renderStroke ex_highlight ex_geo =
       [SetLineJoinRound,
        DrawSvgPath d col (max 1.0 (min (40 * SCALE * WIDTH_FACTOR) 15.0)) opac (pageHeightPt ex_geo)]"
    by blast
  with h1 h2 h3 ex_highlight_path show ?thesis by simp
qed


section \<open>Paint order on a page\<close>

lemma strokePass_inner:
  "fold (\<lambda>stroke ops2.
           if isHighlighter (getPenStyle (penType stroke)) = hl
           then ops2 @ renderStroke stroke geo else ops2)
        ss ops
   = ops @ concat (map (\<lambda>s. renderStroke s geo)
                    (filter (\<lambda>s. isHighlighter (getPenStyle (penType s)) = hl) ss))"
  by (induction ss arbitrary: ops) simp_all

lemma strokePass_eq:
  "strokePass hl page geo ops
   = ops @ concat (map (\<lambda>s. renderStroke s geo)
                    (filter (\<lambda>s. isHighlighter (getPenStyle (penType s)) = hl) (allStrokes page)))"
proof -
  have "fold (\<lambda>layer ops1.
             fold (\<lambda>stroke ops2.
                     let ps = getPenStyle (penType stroke)
                     in if isHighlighter ps = hl
                        then ops2 @ renderStroke stroke geo
                        else ops2)
                  (strokes layer) ops1) ls ops
     = ops @ concat (map (\<lambda>s. renderStroke s geo)
                    (filter (\<lambda>s. isHighlighter (getPenStyle (penType s)) = hl)
                       (concat (map strokes ls))))"
    for ls
    by (induction ls arbitrary: ops) (simp_all add: strokePass_inner Let_def)
  then show ?thesis by (simp add: strokePass_def allStrokes_def)
qed

text \<open>
  Claim C9. The stroke calls of a page are the calls of its highlighter-class strokes,
  taken over all layers in layer order and in stroke order within a layer, followed by
  the calls of its other strokes in the same order. This is what the two stroke passes
  put on the page, and it is the stroke part of the page that \<open>renderPageToPdf\<close>
  returns, which it does exactly when the text pass does not throw.
\<close>

theorem renderPageToPdf_paint_order:
  "renderPageToPdf lib page bg
   = (case renderTextBlocks lib (textBlocks page) (computePageGeometry page) [] of
        Inl e \<Rightarrow> Inl e
      | Inr tops \<Rightarrow>
          Inr \<lparr>pageSize = (pageWidthPt (computePageGeometry page),
                           pageHeightPt (computePageGeometry page)),
               strokeOps =
                 concat (map (\<lambda>s. renderStroke s (computePageGeometry page))
                           (filter (\<lambda>s. isHighlighter (getPenStyle (penType s))) (allStrokes page)))
                 @ concat (map (\<lambda>s. renderStroke s (computePageGeometry page))
                           (filter (\<lambda>s. \<not> isHighlighter (getPenStyle (penType s))) (allStrokes page))),
               textOps = tops,
               background = bg\<rparr>)
   \<and> strokePass False page (computePageGeometry page)
        (strokePass True page (computePageGeometry page) [])
      = concat (map (\<lambda>s. renderStroke s (computePageGeometry page))
                  (filter (\<lambda>s. isHighlighter (getPenStyle (penType s))) (allStrokes page)))
        @ concat (map (\<lambda>s. renderStroke s (computePageGeometry page))
                  (filter (\<lambda>s. \<not> isHighlighter (getPenStyle (penType s))) (allStrokes page)))"
  by (simp add: renderPageToPdf_def Let_def strokePass_eq)

section \<open>The pages of a converted document\<close>

text \<open>
  The conversion of a document that has pages is the rendering of its pages in order,
  each on the page \<open>parsedPage\<close> gives and the background of its index: it returns
  all of them or throws the first error of a rendering.
\<close>

lemma renderNotebookLoop_collect:
  "renderNotebookLoop lib pgs bgs i out
   = (case collect (map (\<lambda>j. renderPageToPdf lib (pgs ! j)
                                 (if j < length bgs then bgs ! j else None))
                       [i..<length pgs]) of
        Inl e \<Rightarrow> Inl e
      | Inr vs \<Rightarrow> Inr (out @ vs))"
proof (induction lib pgs bgs i out rule: renderNotebookLoop.induct)
  case (1 lib pgs bgs i out)
  show ?case
  proof (cases "i < length pgs")
    case False
    then show ?thesis by (simp add: renderNotebookLoop.simps [of lib pgs bgs i out])
  next
    case True
    then have upt: "[i..<length pgs] = i # [i + 1..<length pgs]"
      by (simp add: upt_rec)
    show ?thesis
    proof (cases "renderPageToPdf lib (pgs ! i) (if i < length bgs then bgs ! i else None)")
      case (Inl e)
      with True show ?thesis
        by (simp add: renderNotebookLoop.simps [of lib pgs bgs i out] upt)
    next
      case (Inr pagePdf)
      with True "1.IH" [OF True refl Inr] show ?thesis
        by (simp add: renderNotebookLoop.simps [of lib pgs bgs i out] upt split: sum.splits)
    qed
  qed
qed

lemma collect_single:
  "collect [r] = (case r of Inl e \<Rightarrow> Inl e | Inr v \<Rightarrow> Inr [v])"
  by (simp split: sum.splits)

lemma convertToPdf_pages:
  assumes "pages content \<noteq> []"
  shows "convertToPdf lib parse ext content
         = collect (map (\<lambda>i. renderPageToPdf lib (parsedPage parse (pages content ! i))
                                             (backgroundPdf ext content i))
                      [0..<length (pages content)])"
proof (cases "length (pages content) = 1")
  case True
  then have "[0..<length (pages content)] = [0]" by simp
  with True show ?thesis
    by (simp add: convertToPdf_def Let_def del: collect.simps add: collect_single)
next
  case False
  let ?n = "length (pages content)"
  have eq: "map (\<lambda>j. renderPageToPdf lib (map (parsedPage parse) (pages content) ! j)
                   (if j < ?n
                    then map (backgroundPdf ext content) [0..<?n] ! j else None))
              [0..<?n]
            = map (\<lambda>i. renderPageToPdf lib (parsedPage parse (pages content ! i))
                                           (backgroundPdf ext content i))
              [0..<?n]"
    by (rule map_cong) simp_all
  have "convertToPdf lib parse ext content
        = renderNotebookLoop lib (map (parsedPage parse) (pages content))
            (map (backgroundPdf ext content) [0..<?n]) 0 []"
    using assms False by (simp add: convertToPdf_def Let_def renderNotebookToPdf_def)
  also have "\<dots> = collect (map (\<lambda>i. renderPageToPdf lib (parsedPage parse (pages content ! i))
                                             (backgroundPdf ext content i))
                      [0..<?n])"
    by (simp add: renderNotebookLoop_collect eq split: sum.splits)
  finally show ?thesis .
qed

section \<open>When the rendering returns\<close>

text \<open>
  With fonts that measure and draw every text, the text pass returns, and so do the
  rendering of a page and the conversion of a document that has pages.
\<close>

lemma wrapLoop_returns:
  assumes "\<forall>t. widthOf t \<noteq> None"
  shows "\<exists>r. wrapLoop widthOf maxWidth ws lines currentLine = Inr r"
proof (induction ws arbitrary: lines currentLine)
  case Nil
  show ?case by simp
next
  case (Cons word ws)
  from assms have "widthOf (js_trim (currentLine @ [32] @ word)) \<noteq> None"
    by blast
  then obtain w where "widthOf (js_trim (currentLine @ [32] @ word)) = Some w"
    by blast
  with Cons.IH show ?case by (simp add: Let_def)
qed

lemma wrapText_returns:
  assumes "\<forall>font t sz. widthOfTextAtSize lib font t sz \<noteq> None"
  shows "\<exists>ls. wrapText lib t maxWidth font fontSz = Inr ls"
proof -
  from assms have "\<forall>test. widthOfTextAtSize lib font test fontSz \<noteq> None" by simp
  from wrapLoop_returns [OF this, of maxWidth "js_split 32 t" "[]" "[]"]
  show ?thesis by (auto simp: wrapText_def Let_def)
qed

lemma drawLines_returns:
  assumes "\<forall>font t. canDrawText lib font t"
  shows "\<exists>r. drawLines lib ls blockX setting activeFont cursorY ops = Inr r"
  using assms by (induction ls arbitrary: cursorY ops) (simp_all add: Let_def)

lemma renderParagraphs_returns:
  assumes "\<forall>font t sz. widthOfTextAtSize lib font t sz \<noteq> None"
    and "\<forall>font t. canDrawText lib font t"
  shows "\<exists>r. renderParagraphs lib tb blockX blockWidthPt paras paraIndex cursorY charOffset ops = Inr r"
proof (induction paras arbitrary: paraIndex cursorY charOffset ops)
  case Nil
  show ?case by simp
next
  case (Cons para rest)
  define style where "style = (case paragraphStyles tb charOffset of Some st \<Rightarrow> st | None \<Rightarrow> STYLE_PLAIN)"
  define activeFont where "activeFont = (if isBoldStyle style then HelveticaBold else Helvetica)"
  obtain ls where w: "wrapText lib (getStylePrefix style paraIndex @ para) blockWidthPt activeFont
                        (fontSize (getFontSetting style)) = Inr ls"
    using wrapText_returns [OF assms(1)] by blast
  obtain c' ops' where d: "drawLines lib ls blockX (getFontSetting style) activeFont cursorY ops
                        = Inr (c', ops')"
    using drawLines_returns [OF assms(2), of ls blockX "getFontSetting style" activeFont cursorY ops]
    by auto
  from Cons.IH w d show ?case
    by (simp add: Let_def style_def [symmetric] activeFont_def [symmetric])
qed

lemma renderTextBlocks_returns:
  assumes "\<forall>font t sz. widthOfTextAtSize lib font t sz \<noteq> None"
    and "\<forall>font t. canDrawText lib font t"
  shows "\<exists>r. renderTextBlocks lib tbs geo ops = Inr r"
proof (induction tbs arbitrary: ops)
  case Nil
  show ?case by simp
next
  case (Cons tb tbs)
  have "\<exists>r. renderTextBlock lib tb geo ops = Inr r"
    using renderParagraphs_returns [OF assms] by (simp add: renderTextBlock_def Let_def)
  with Cons.IH show ?case by auto
qed

lemma renderPageToPdf_returns:
  assumes "\<forall>font t sz. widthOfTextAtSize lib font t sz \<noteq> None"
    and "\<forall>font t. canDrawText lib font t"
  shows "\<exists>out. renderPageToPdf lib page bg = Inr out"
  using renderTextBlocks_returns [OF assms, of "textBlocks page" "computePageGeometry page" "[]"]
  by (auto simp: renderPageToPdf_def Let_def)

lemma renderPageToPdf_no_text:
  assumes "textBlocks page = []"
  shows "\<exists>out. renderPageToPdf lib page bg = Inr out"
  using assms by (simp add: renderPageToPdf_def Let_def)

lemma collect_returns:
  assumes "\<forall>r \<in> set rs. \<exists>v. r = Inr v"
  shows "\<exists>vs. collect rs = Inr vs \<and> length vs = length rs"
  using assms by (induction rs) auto

lemma convertToPdf_returns:
  assumes "pages content \<noteq> []"
    and "\<forall>font t sz. widthOfTextAtSize lib font t sz \<noteq> None"
    and "\<forall>font t. canDrawText lib font t"
  shows "\<exists>out. convertToPdf lib parse ext content = Inr out
               \<and> length out = length (pages content)"
proof -
  let ?rs = "map (\<lambda>i. renderPageToPdf lib (parsedPage parse (pages content ! i))
                                        (backgroundPdf ext content i))
               [0..<length (pages content)]"
  have "\<forall>r \<in> set ?rs. \<exists>v. r = Inr v"
    using renderPageToPdf_returns [OF assms(2,3)] by auto
  from collect_returns [OF this] show ?thesis
    by (simp add: convertToPdf_pages [OF assms(1)])
qed

lemma convertToPdf_no_pages:
  "pages content = [] \<Longrightarrow> convertToPdf lib parse ext content = Inl NoPagesFound"
  by (simp add: convertToPdf_def)

lemma parsedPage_recovers:
  "rmData info = Some data \<Longrightarrow> parse (rmBuffer data) = None
   \<Longrightarrow> parsedPage parse info = emptyPage (info_pageId info)"
  by (simp add: parsedPage_def)

section \<open>Conversion of a document\<close>

text \<open>
  Claim C2 at a document of one page whose data decodes to a text block with a TAB. The
  sanitiser keeps the TAB, the measure of the text in \<open>wrapText\<close> throws in a library
  whose fonts have no glyph for it, nothing catches the error, and the conversion of a
  document that has a page fails.
\<close>

theorem convertToPdf_throws_on_kept_control_character:
  "pages (ex_doc [ex_info ''p1'' None]) = [ex_info ''p1'' None]
   \<and> rmData (ex_info ''p1'' None) = Some ex_data
   \<and> ex_parse ex_tab_page (rmBuffer ex_data) = Some ex_tab_page
   \<and> map tb_text (textBlocks (parsedPage (ex_parse ex_tab_page) (ex_info ''p1'' None))) = [[97, 9, 98]]
   \<and> sanitizeForWinAnsi [97, 9, 98] = [97, 9, 98]
   \<and> widthOfTextAtSize winansi_lib Helvetica [97, 9, 98] 10 = None
   \<and> convertToPdf winansi_lib (ex_parse ex_tab_page) no_extract (ex_doc [ex_info ''p1'' None])
       = Inl PdfLibError"
  by (simp add: ex_doc_def ex_info_def ex_parse_def ex_tab_page_def ex_data_def no_extract_def
      winansi_lib_def winAnsiGlyph_def sanitizeForWinAnsi_def convertToPdf_def parsedPage_def
      backgroundPdf_def renderPageToPdf_def renderTextBlock_def wrapText_def js_trim_def
      isWhiteSpace_def getStylePrefix_def getFontSetting_def STYLE_FONTS_def isBoldStyle_def
      STYLE_PLAIN_def STYLE_HEADING_def STYLE_BOLD_def STYLE_BULLET_def STYLE_BULLET2_def
      STYLE_CHECKBOX_def STYLE_CHECKBOX_CHECKED_def STYLE_NUMBERED_def DEFAULT_FONT_def Let_def)

text \<open>
  The same document converts in a library that accepts every text, and a page whose data
  the parser rejects is replaced by the empty page and converts in either library.
\<close>

lemma convertToPdf_examples:
  "(\<exists>out. convertToPdf accepting_lib (ex_parse ex_tab_page) no_extract (ex_doc [ex_info ''p1'' None])
            = Inr [out])
   \<and> (\<exists>o1 o2. convertToPdf winansi_lib failing_parse no_extract
                  (ex_doc [ex_info ''p1'' (Some 0), ex_info ''p2'' None]) = Inr [o1, o2]
               \<and> strokeOps o1 = [] \<and> textOps o1 = [] \<and> pageSize o1 = (514, 1872 * SCALE))
   \<and> convertToPdf winansi_lib failing_parse no_extract (ex_doc []) = Inl NoPagesFound"
proof -
  have a: "\<exists>out. convertToPdf accepting_lib (ex_parse ex_tab_page) no_extract (ex_doc [ex_info ''p1'' None])
            = Inr [out]"
    using convertToPdf_returns [of "ex_doc [ex_info ''p1'' None]" accepting_lib
        "ex_parse ex_tab_page" no_extract]
    by (auto simp: ex_doc_def accepting_lib_def length_Suc_conv)
  have p: "parsedPage failing_parse (ex_info pid vs) = emptyPage pid" for pid vs
    by (simp add: parsedPage_def ex_info_def failing_parse_def)
  have r: "renderPageToPdf winansi_lib (emptyPage pid) None
           = Inr \<lparr>pageSize = (514, 1872 * SCALE), strokeOps = [], textOps = [], background = None\<rparr>"
    for pid
    by (simp add: renderPageToPdf_def emptyPage_def strokePass_def computePageGeometry_def
        COORD_SCALE_def RM_SCREEN_WIDTH_PX_def Let_def)
  have b: "convertToPdf winansi_lib failing_parse no_extract
                  (ex_doc [ex_info ''p1'' (Some 0), ex_info ''p2'' None])
           = Inr [\<lparr>pageSize = (514, 1872 * SCALE), strokeOps = [], textOps = [], background = None\<rparr>,
                  \<lparr>pageSize = (514, 1872 * SCALE), strokeOps = [], textOps = [], background = None\<rparr>]"
    by (simp add: convertToPdf_pages ex_doc_def upt_rec p r backgroundPdf_def no_extract_def)
  have c: "convertToPdf winansi_lib failing_parse no_extract (ex_doc []) = Inl NoPagesFound"
    by (simp add: convertToPdf_def ex_doc_def)
  from a b c show ?thesis by simp
qed

section \<open>Auto-extension of scrolled pages\<close>

lemma maxY_points:
  "fold (\<lambda>pt maxY. if pt_y pt > maxY then pt_y pt else maxY) ps m
   = fold max (map pt_y ps) (m::real)"
  by (induction ps arbitrary: m) (simp_all add: max_def)

lemma maxY_strokes:
  "fold (\<lambda>stroke m2.
           fold (\<lambda>pt maxY. if pt_y pt > maxY then pt_y pt else maxY) (points stroke) m2)
        ss m
   = fold max (concat (map (\<lambda>s. map pt_y (points s)) ss)) (m::real)"
  by (induction ss arbitrary: m) (simp_all add: maxY_points)

lemma maxStrokeY_fold: "maxStrokeY page = fold max (strokeYs page) 0"
proof -
  have "fold (\<lambda>layer m1.
             fold (\<lambda>stroke m2.
                     fold (\<lambda>pt maxY. if pt_y pt > maxY then pt_y pt else maxY)
                          (points stroke) m2)
                  (strokes layer) m1) ls m
     = fold max (concat (map (\<lambda>s. map pt_y (points s)) (concat (map strokes ls)))) (m::real)"
    for ls m
    by (induction ls arbitrary: m) (simp_all add: maxY_strokes)
  then show ?thesis by (simp add: maxStrokeY_def strokeYs_def allStrokes_def)
qed

text \<open>The loops compute the largest y of the page's points, or 0 if that is larger.\<close>

lemma maxStrokeY_Max: "maxStrokeY page = Max (insert 0 (set (strokeYs page)))"
  using Max.set_eq_fold [of 0 "strokeYs page"] by (simp add: maxStrokeY_fold)

lemma maxStrokeY_max:
  assumes "strokeYs page \<noteq> []"
  shows "maxStrokeY page = max 0 (Max (set (strokeYs page)))"
  using assms by (simp add: maxStrokeY_Max)

lemma strokeYs_pageId [simp]: "strokeYs (p\<lparr>pageId := pid\<rparr>) = strokeYs p"
  by (simp add: strokeYs_def allStrokes_def)

lemma maxStrokeY_pageId [simp]: "maxStrokeY (p\<lparr>pageId := pid\<rparr>) = maxStrokeY p"
  by (simp add: maxStrokeY_def)

text \<open>The height of the page handed to the renderer, for a page that was decoded.\<close>

lemma parsedPage_height:
  assumes "rmData info = Some data" "parse (rmBuffer data) = Some p"
  shows "height (parsedPage parse info)
         = (if verticalScroll info \<noteq> None \<and> height p * 1.05 < maxStrokeY p * 0.885
            then maxStrokeY p * 0.885 else height p)"
  using assms by (simp add: parsedPage_def Let_def split: option.splits)

lemma renderPageToPdf_pageSize:
  "renderPageToPdf lib page bg = Inr out
   \<Longrightarrow> pageSize out = (514, height page * SCALE)"
  by (auto simp: renderPageToPdf_def Let_def computePageGeometry_def COORD_SCALE_def
      RM_SCREEN_WIDTH_PX_def split: sum.splits)

text \<open>
  Claim C3, as the specification states it, fails: with the scroll flag set and a largest
  stroke y of 2200 the scaled height is 1947, below the threshold 1965.6, and the height
  stays 1872.
\<close>

theorem scroll_2200_not_extended_counterexample:
  "pages (ex_doc [ex_info ''p1'' (Some 0)]) = [ex_info ''p1'' (Some 0)]
   \<and> verticalScroll (ex_info ''p1'' (Some 0)) = Some 0
   \<and> Max (set (strokeYs (ex_page 2200))) = 2200
   \<and> height (ex_page 2200) = 1872
   \<and> height (parsedPage (ex_parse (ex_page 2200)) (ex_info ''p1'' (Some 0))) = 1872
   \<and> height (parsedPage (ex_parse (ex_page 2200)) (ex_info ''p1'' (Some 0))) \<noteq> 2200 * 0.885
   \<and> map_sum id (map pageSize)
        (convertToPdf winansi_lib (ex_parse (ex_page 2200)) no_extract
           (ex_doc [ex_info ''p1'' (Some 0)]))
       = Inr [(514, 1872 * SCALE)]"
  by (simp add: ex_doc_def ex_info_def ex_page_def ex_parse_def ex_data_def no_extract_def
      strokeYs_def allStrokes_def parsedPage_def maxStrokeY_def rmBuffer_def Let_def
      convertToPdf_def backgroundPdf_def renderPageToPdf_def computePageGeometry_def
      COORD_SCALE_def RM_SCREEN_WIDTH_PX_def)

text \<open>
  Claim C3, amended. For a one-page document whose page decodes to a page of height 1872
  with largest stroke y \<open>m\<close>, the conversion is the rendering of that one page, whose
  height in points is the page's height times \<open>SCALE\<close>, and the page's height is
  \<open>m * 0.885\<close> if the scroll flag is set and \<open>m * 0.885 > 1872 * 1.05\<close>, and 1872
  otherwise. So with the flag and \<open>m = 2300\<close> the height becomes \<open>2300 * 0.885\<close>; with
  \<open>m = 2200\<close> or \<open>m = 1900\<close>, or without the flag, it stays 1872. The conversion
  returns the page whenever the text pass does not throw, as for a page without text.
\<close>

theorem convertToPdf_scroll_extension:
  assumes "pages content = [info]"
    and "rmData info = Some data"
    and "parse (rmBuffer data) = Some p"
    and "height p = 1872"
    and "strokeYs p \<noteq> []"
    and "Max (set (strokeYs p)) = m"
  shows "convertToPdf lib parse ext content
           = (case renderPageToPdf lib (parsedPage parse info) (backgroundPdf ext content 0) of
                Inl e \<Rightarrow> Inl e
              | Inr pagePdf \<Rightarrow> Inr [pagePdf])
         \<and> (\<forall>out. renderPageToPdf lib (parsedPage parse info) (backgroundPdf ext content 0) = Inr out
                \<longrightarrow> snd (pageSize out) = height (parsedPage parse info) * SCALE)
         \<and> (textBlocks p = [] \<longrightarrow>
               (\<exists>out. convertToPdf lib parse ext content = Inr [out]
                    \<and> snd (pageSize out) = height (parsedPage parse info) * SCALE))
         \<and> height (parsedPage parse info)
             = (if verticalScroll info \<noteq> None \<and> 1872 * 1.05 < m * 0.885
                then m * 0.885 else 1872)
         \<and> (verticalScroll info \<noteq> None \<and> m = 2300
              \<longrightarrow> height (parsedPage parse info) = 2300 * 0.885)
         \<and> (m = 2200 \<longrightarrow> height (parsedPage parse info) = 1872)
         \<and> (m = 1900 \<longrightarrow> height (parsedPage parse info) = 1872)
         \<and> (verticalScroll info = None \<longrightarrow> height (parsedPage parse info) = 1872)"
proof -
  let ?r = "renderPageToPdf lib (parsedPage parse info) (backgroundPdf ext content 0)"
  have out: "convertToPdf lib parse ext content
           = (case ?r of Inl e \<Rightarrow> Inl e | Inr pagePdf \<Rightarrow> Inr [pagePdf])"
    using assms(1) by (simp add: convertToPdf_def Let_def)
  have size: "\<forall>out. ?r = Inr out \<longrightarrow> snd (pageSize out) = height (parsedPage parse info) * SCALE"
    by (auto dest: renderPageToPdf_pageSize)
  have tb: "textBlocks (parsedPage parse info) = textBlocks p"
    using assms(2,3) by (simp add: parsedPage_def Let_def split: option.splits)
  have ret: "textBlocks p = [] \<longrightarrow>
               (\<exists>out. convertToPdf lib parse ext content = Inr [out]
                    \<and> snd (pageSize out) = height (parsedPage parse info) * SCALE)"
  proof
    assume "textBlocks p = []"
    with tb obtain pg where pg: "?r = Inr pg"
      using renderPageToPdf_no_text [of "parsedPage parse info" lib "backgroundPdf ext content 0"]
      by auto
    with size have "snd (pageSize pg) = height (parsedPage parse info) * SCALE" by blast
    with pg out show "\<exists>out. convertToPdf lib parse ext content = Inr [out]
                    \<and> snd (pageSize out) = height (parsedPage parse info) * SCALE"
      by simp
  qed
  have my: "maxStrokeY p = max 0 m"
    using assms(5,6) by (simp add: maxStrokeY_max)
  have h: "height (parsedPage parse info)
             = (if verticalScroll info \<noteq> None \<and> 1872 * 1.05 < m * 0.885
                then m * 0.885 else 1872)"
    using assms(4) my by (simp add: parsedPage_height [where parse = parse, OF assms(2,3)] max_def)
  have c1: "verticalScroll info \<noteq> None \<and> m = 2300
              \<longrightarrow> height (parsedPage parse info) = 2300 * 0.885"
    unfolding h by simp
  have c2: "m = 2200 \<longrightarrow> height (parsedPage parse info) = 1872"
    unfolding h by simp
  have c3: "m = 1900 \<longrightarrow> height (parsedPage parse info) = 1872"
    unfolding h by simp
  have c4: "verticalScroll info = None \<longrightarrow> height (parsedPage parse info) = 1872"
    unfolding h by simp
  from out size ret h c1 c2 c3 c4 show ?thesis by blast
qed

theorem convertToPdf_scroll_extension_witness:
  "pages (ex_doc [ex_info ''p1'' (Some 0)]) = [ex_info ''p1'' (Some 0)]
   \<and> rmData (ex_info ''p1'' (Some 0)) = Some ex_data
   \<and> ex_parse (ex_page 2300) (rmBuffer ex_data) = Some (ex_page 2300)
   \<and> height (ex_page 2300) = 1872
   \<and> strokeYs (ex_page 2300) \<noteq> []
   \<and> Max (set (strokeYs (ex_page 2300))) = 2300
   \<and> verticalScroll (ex_info ''p1'' (Some 0)) \<noteq> None
   \<and> textBlocks (ex_page 2300) = []
   \<and> height (parsedPage (ex_parse (ex_page 2300)) (ex_info ''p1'' (Some 0))) = 2035.5
   \<and> map_sum id (map pageSize)
        (convertToPdf winansi_lib (ex_parse (ex_page 2300)) no_extract
           (ex_doc [ex_info ''p1'' (Some 0)]))
       = Inr [(514, 2035.5 * SCALE)]"
proof -
  have h1: "pages (ex_doc [ex_info ''p1'' (Some 0)]) = [ex_info ''p1'' (Some 0)]"
    by (simp add: ex_doc_def)
  have h2: "rmData (ex_info ''p1'' (Some 0)) = Some ex_data"
    by (simp add: ex_info_def)
  have h3: "ex_parse (ex_page 2300) (rmBuffer ex_data) = Some (ex_page 2300)"
    by (simp add: ex_parse_def)
  have h4: "height (ex_page 2300) = 1872"
    by (simp add: ex_page_def)
  have h5: "strokeYs (ex_page 2300) \<noteq> []"
    by (simp add: ex_page_def strokeYs_def allStrokes_def)
  have h6: "Max (set (strokeYs (ex_page 2300))) = 2300"
    by (simp add: ex_page_def strokeYs_def allStrokes_def)
  have h7: "verticalScroll (ex_info ''p1'' (Some 0)) \<noteq> None"
    by (simp add: ex_info_def)
  have h8: "textBlocks (ex_page 2300) = []"
    by (simp add: ex_page_def)
  note inst = convertToPdf_scroll_extension
    [where parse = "ex_parse (ex_page 2300)" and ext = no_extract and lib = winansi_lib,
     OF h1 h2 h3 h4 h5 h6]
  from inst h7 have hh: "height (parsedPage (ex_parse (ex_page 2300)) (ex_info ''p1'' (Some 0))) = 2035.5"
    by simp
  from inst h8 obtain out where
    o: "convertToPdf winansi_lib (ex_parse (ex_page 2300)) no_extract (ex_doc [ex_info ''p1'' (Some 0)])
        = Inr [out]"
    and sz: "snd (pageSize out)
             = height (parsedPage (ex_parse (ex_page 2300)) (ex_info ''p1'' (Some 0))) * SCALE"
    by blast
  from inst o have "renderPageToPdf winansi_lib
                     (parsedPage (ex_parse (ex_page 2300)) (ex_info ''p1'' (Some 0)))
                     (backgroundPdf no_extract (ex_doc [ex_info ''p1'' (Some 0)]) 0) = Inr out"
    by (auto split: sum.splits)
  from renderPageToPdf_pageSize [OF this] hh have "pageSize out = (514, 2035.5 * SCALE)"
    by simp
  with o have "map_sum id (map pageSize)
        (convertToPdf winansi_lib (ex_parse (ex_page 2300)) no_extract
           (ex_doc [ex_info ''p1'' (Some 0)]))
       = Inr [(514, 2035.5 * SCALE)]"
    by simp
  with h1 h2 h3 h4 h5 h6 h7 h8 hh show ?thesis by blast
qed

text \<open>
  Claim C4. Take a page with the scroll flag set that decodes to a page of non-negative
  height (the default height, 1872 from the decoder) with largest stroke y \<open>m\<close>. If
  \<open>m * 0.885\<close> is exactly 1.05 times that height, the height is left as it is. If it is
  strictly greater, the height becomes \<open>m * 0.885\<close>, and the geometry is computed from
  the new height: the page height in points, the size of the page that the rendering
  returns and the vertical flip of \<open>toPdf\<close> all use \<open>m * 0.885 * SCALE\<close>.
\<close>

theorem auto_extension_strict_threshold:
  assumes "verticalScroll info = Some v"
    and "rmData info = Some data"
    and "parse (rmBuffer data) = Some p"
    and "0 \<le> height p"
    and "strokeYs p \<noteq> []"
    and "m = Max (set (strokeYs p))"
  shows "(m * 0.885 = height p * 1.05 \<longrightarrow> height (parsedPage parse info) = height p)
         \<and> (m * 0.885 > height p * 1.05 \<longrightarrow>
              height (parsedPage parse info) = m * 0.885
              \<and> pageHeightPt (computePageGeometry (parsedPage parse info)) = m * 0.885 * SCALE
              \<and> (\<forall>out. renderPageToPdf lib (parsedPage parse info) bg = Inr out
                     \<longrightarrow> snd (pageSize out) = m * 0.885 * SCALE)
              \<and> (textBlocks p = [] \<longrightarrow>
                    (\<exists>out. renderPageToPdf lib (parsedPage parse info) bg = Inr out))
              \<and> snd (toPdf x y (computePageGeometry (parsedPage parse info)))
                  = m * 0.885 * SCALE - y * COORD_SCALE)"
proof -
  have my: "maxStrokeY p = max 0 m"
    using assms(5,6) by (simp add: maxStrokeY_max)
  have h: "height (parsedPage parse info)
           = (if height p * 1.05 < max 0 m * 0.885 then max 0 m * 0.885 else height p)"
    using assms(1) my by (simp add: parsedPage_height [where parse = parse, OF assms(2,3)])
  have geo: "pageHeightPt (computePageGeometry q) = height q * SCALE
             \<and> snd (toPdf x y (computePageGeometry q)) = height q * SCALE - y * COORD_SCALE"
    for q
    by (simp add: computePageGeometry_def toPdf_def Let_def)
  have size: "\<forall>out. renderPageToPdf lib q bg = Inr out \<longrightarrow> snd (pageSize out) = height q * SCALE"
    for q
    by (auto dest: renderPageToPdf_pageSize)
  have tb: "textBlocks (parsedPage parse info) = textBlocks p"
    using assms(2,3) by (simp add: parsedPage_def Let_def split: option.splits)
  have ret: "textBlocks p = [] \<longrightarrow>
               (\<exists>out. renderPageToPdf lib (parsedPage parse info) bg = Inr out)"
    using tb renderPageToPdf_no_text [of "parsedPage parse info" lib bg] by simp
  have eq: "m * 0.885 = height p * 1.05 \<longrightarrow> height (parsedPage parse info) = height p"
  proof
    assume e: "m * 0.885 = height p * 1.05"
    with assms(4) have "0 \<le> m" by simp
    with e show "height (parsedPage parse info) = height p"
      unfolding h by (simp add: max_def)
  qed
  have gt: "m * 0.885 > height p * 1.05 \<longrightarrow> height (parsedPage parse info) = m * 0.885"
  proof
    assume g: "m * 0.885 > height p * 1.05"
    with assms(4) have "0 < m * 0.885" by simp
    then have "0 < m" by simp
    with g show "height (parsedPage parse info) = m * 0.885"
      unfolding h by (simp add: max_def)
  qed
  from eq gt ret geo [of "parsedPage parse info"] size [of "parsedPage parse info"]
  show ?thesis by simp
qed

theorem auto_extension_strict_threshold_witness:
  "verticalScroll (ex_info ''p1'' (Some 0)) = Some 0
   \<and> rmData (ex_info ''p1'' (Some 0)) = Some ex_data
   \<and> ex_parse (ex_page (131040 / 59)) (rmBuffer ex_data) = Some (ex_page (131040 / 59))
   \<and> 0 \<le> height (ex_page (131040 / 59))
   \<and> strokeYs (ex_page (131040 / 59)) \<noteq> []
   \<and> Max (set (strokeYs (ex_page (131040 / 59)))) * 0.885 = height (ex_page (131040 / 59)) * 1.05
   \<and> height (parsedPage (ex_parse (ex_page (131040 / 59))) (ex_info ''p1'' (Some 0))) = 1872
   \<and> ex_parse (ex_page (393320 / 177)) (rmBuffer ex_data) = Some (ex_page (393320 / 177))
   \<and> 0 \<le> height (ex_page (393320 / 177))
   \<and> strokeYs (ex_page (393320 / 177)) \<noteq> []
   \<and> Max (set (strokeYs (ex_page (393320 / 177)))) * 0.885
       = height (ex_page (393320 / 177)) * 1.05 + 1
   \<and> height (parsedPage (ex_parse (ex_page (393320 / 177))) (ex_info ''p1'' (Some 0))) = 1966.6
   \<and> pageHeightPt (computePageGeometry
         (parsedPage (ex_parse (ex_page (393320 / 177))) (ex_info ''p1'' (Some 0))))
       = 1966.6 * SCALE
   \<and> map_sum id pageSize
        (renderPageToPdf winansi_lib
           (parsedPage (ex_parse (ex_page (393320 / 177))) (ex_info ''p1'' (Some 0))) None)
       = Inr (514, 1966.6 * SCALE)"
proof -
  have h1: "verticalScroll (ex_info ''p1'' (Some 0)) = Some 0"
    and h2: "rmData (ex_info ''p1'' (Some 0)) = Some ex_data"
    by (simp_all add: ex_info_def)
  have h3: "ex_parse (ex_page ymax) (rmBuffer ex_data) = Some (ex_page ymax)" for ymax
    by (simp add: ex_parse_def)
  have h4: "0 \<le> height (ex_page ymax)" and h4': "height (ex_page ymax) = 1872" for ymax
    by (simp_all add: ex_page_def)
  have h5: "strokeYs (ex_page ymax) \<noteq> []" for ymax
    by (simp add: ex_page_def strokeYs_def allStrokes_def)
  have h6: "textBlocks (ex_page ymax) = []" for ymax
    by (simp add: ex_page_def)
  have m1: "131040 / 59 = Max (set (strokeYs (ex_page (131040 / 59))))"
    by (simp add: ex_page_def strokeYs_def allStrokes_def)
  have m2: "393320 / 177 = Max (set (strokeYs (ex_page (393320 / 177))))"
    by (simp add: ex_page_def strokeYs_def allStrokes_def)
  from auto_extension_strict_threshold
    [where parse = "ex_parse (ex_page (131040 / 59))", OF h1 h2 h3 h4 h5 m1]
  have a: "height (parsedPage (ex_parse (ex_page (131040 / 59))) (ex_info ''p1'' (Some 0))) = 1872"
    by (simp add: h4')
  note inst = auto_extension_strict_threshold
    [where parse = "ex_parse (ex_page (393320 / 177))" and lib = winansi_lib and bg = None
       and x = 0 and y = 0,
     OF h1 h2 h3 h4 h5 m2]
  from inst
  have b: "height (parsedPage (ex_parse (ex_page (393320 / 177))) (ex_info ''p1'' (Some 0))) = 1966.6
     \<and> pageHeightPt (computePageGeometry
         (parsedPage (ex_parse (ex_page (393320 / 177))) (ex_info ''p1'' (Some 0))))
       = 1966.6 * SCALE"
    by (simp add: h4')
  from inst h6 obtain out where
    o: "renderPageToPdf winansi_lib
          (parsedPage (ex_parse (ex_page (393320 / 177))) (ex_info ''p1'' (Some 0))) None = Inr out"
    by (auto simp: h4')
  from renderPageToPdf_pageSize [OF o] b
  have c: "map_sum id pageSize
        (renderPageToPdf winansi_lib
           (parsedPage (ex_parse (ex_page (393320 / 177))) (ex_info ''p1'' (Some 0))) None)
       = Inr (514, 1966.6 * SCALE)"
    by (simp add: o)
  have e1: "Max (set (strokeYs (ex_page (131040 / 59)))) * 0.885
            = height (ex_page (131040 / 59)) * 1.05"
    unfolding m1 [symmetric] h4' by simp
  have e2: "Max (set (strokeYs (ex_page (393320 / 177)))) * 0.885
            = height (ex_page (393320 / 177)) * 1.05 + 1"
    unfolding m2 [symmetric] h4' by simp
  from h1 h2 h3 h4 h5 a b c e1 e2 show ?thesis by blast
qed

section \<open>What the converter changes in a decoded page\<close>

text \<open>
  Claim C10, as the specification states it, fails for the identifier: the converter
  assigns the identifier of the \<open>PageInfo\<close> to the decoded page. A page decoded with an
  empty identifier, for the page \<open>p1\<close> of the document, reaches the renderer with the
  identifier \<open>p1\<close>.
\<close>

theorem pageId_assigned_counterexample:
  "rmData (ex_info ''p1'' None) = Some ex_data
   \<and> ex_parse (ex_page 1900) (rmBuffer ex_data) = Some (ex_page 1900)
   \<and> pageId (ex_page 1900) = ''''
   \<and> pageId (parsedPage (ex_parse (ex_page 1900)) (ex_info ''p1'' None)) = ''p1''
   \<and> pageId (parsedPage (ex_parse (ex_page 1900)) (ex_info ''p1'' None)) \<noteq> pageId (ex_page 1900)"
  by (simp add: ex_info_def ex_parse_def ex_page_def parsedPage_def)

text \<open>
  Claim C10, amended. For a page that was decoded, the page handed to the renderer has the
  layers, text spans, text blocks and width of the decoded page; its identifier is the one
  of the \<open>PageInfo\<close>; its height is the decoded height, or, only when the scroll flag is
  set, the scaled largest stroke y. Nothing else differs: the page is the decoded page
  with these two fields set.
\<close>

theorem parsedPage_frame:
  assumes "rmData info = Some data"
    and "parse (rmBuffer data) = Some p"
  shows "layers (parsedPage parse info) = layers p
         \<and> textSpans (parsedPage parse info) = textSpans p
         \<and> textBlocks (parsedPage parse info) = textBlocks p
         \<and> width (parsedPage parse info) = width p
         \<and> pageId (parsedPage parse info) = info_pageId info
         \<and> (height (parsedPage parse info) = height p
            \<or> verticalScroll info \<noteq> None
              \<and> height (parsedPage parse info) = maxStrokeY p * 0.885)
         \<and> parsedPage parse info
             = p\<lparr>pageId := info_pageId info, height := height (parsedPage parse info)\<rparr>"
  using assms by (simp add: parsedPage_def Let_def split: option.splits)

theorem parsedPage_frame_witness:
  "rmData (ex_info ''p1'' (Some 0)) = Some ex_data
   \<and> ex_parse (ex_page 2300) (rmBuffer ex_data) = Some (ex_page 2300)
   \<and> layers (parsedPage (ex_parse (ex_page 2300)) (ex_info ''p1'' (Some 0))) = layers (ex_page 2300)
   \<and> textBlocks (parsedPage (ex_parse (ex_page 2300)) (ex_info ''p1'' (Some 0))) = []
   \<and> width (parsedPage (ex_parse (ex_page 2300)) (ex_info ''p1'' (Some 0))) = 1404
   \<and> pageId (parsedPage (ex_parse (ex_page 2300)) (ex_info ''p1'' (Some 0))) = ''p1''
   \<and> height (parsedPage (ex_parse (ex_page 2300)) (ex_info ''p1'' (Some 0))) = 2035.5"
proof -
  have h1: "rmData (ex_info ''p1'' (Some 0)) = Some ex_data"
    by (simp add: ex_info_def)
  have h2: "ex_parse (ex_page 2300) (rmBuffer ex_data) = Some (ex_page 2300)"
    by (simp add: ex_parse_def)
  have hh: "height (parsedPage (ex_parse (ex_page 2300)) (ex_info ''p1'' (Some 0))) = 2035.5"
    by (simp add: parsedPage_def ex_info_def ex_parse_def ex_page_def maxStrokeY_def Let_def)
  from parsedPage_frame [where parse = "ex_parse (ex_page 2300)", OF h1 h2] h1 h2 hh
  show ?thesis by (simp add: ex_page_def ex_info_def)
qed

end
